theory Spec2Isabelle
  imports Complex_Main "HOL-Library.AList"
begin

text \<open>
  A model of the backtesting engine of the EdgePoly strategies package: the class
  \<open>BacktestEngine\<close> with its simulation loop, its summary, its drawdown periods
  and its performance metrics, the statistics helpers it calls (\<open>sharpeRatio\<close>,
  \<open>sortinoRatio\<close>, \<open>maxDrawdown\<close>, \<open>cagr\<close>) and the types it works on. Every
  function of the source is a function here under its own name; loops are recursive
  functions over the list they run through, local variables that a loop updates are a
  record that it passes on, and what the source raises is a value of a sum type.
\<close>

section \<open>Numbers\<close>

text \<open>
  The engine computes with JavaScript numbers. A finite number is modelled by the real it
  denotes (no rounding, no overflow, no negative zero); the three special values that a
  division, a square root or a power can produce are constructors of their own. Numbers
  handed to the engine from outside (prices, sizes, capital, rates) are finite, so they
  have type \<open>real\<close>; sums, differences and products of them stay in \<open>real\<close>. Only where
  the source divides without a guard, or passes on such a quotient, the result is a
  \<open>jsnum\<close>.
\<close>

datatype jsnum = Fin real | PosInf | NegInf | NaN

fun isFinite :: "jsnum \<Rightarrow> bool" where
  "isFinite (Fin _) = True"
| "isFinite _ = False"

fun jsneg :: "jsnum \<Rightarrow> jsnum" where
  "jsneg (Fin a) = Fin (- a)"
| "jsneg PosInf = NegInf"
| "jsneg NegInf = PosInf"
| "jsneg NaN = NaN"

fun jsadd :: "jsnum \<Rightarrow> jsnum \<Rightarrow> jsnum" where
  "jsadd (Fin a) (Fin b) = Fin (a + b)"
| "jsadd NaN _ = NaN"
| "jsadd _ NaN = NaN"
| "jsadd PosInf NegInf = NaN"
| "jsadd NegInf PosInf = NaN"
| "jsadd PosInf _ = PosInf"
| "jsadd _ PosInf = PosInf"
| "jsadd NegInf _ = NegInf"
| "jsadd _ NegInf = NegInf"

definition jssub :: "jsnum \<Rightarrow> jsnum \<Rightarrow> jsnum" where
  "jssub a b = jsadd a (jsneg b)"

text \<open>The sign of a number: \<open>Some True\<close> positive, \<open>Some False\<close> negative, \<open>None\<close> zero or NaN.\<close>

fun jssign :: "jsnum \<Rightarrow> bool option" where
  "jssign (Fin a) = (if a > 0 then Some True else if a < 0 then Some False else None)"
| "jssign PosInf = Some True"
| "jssign NegInf = Some False"
| "jssign NaN = None"

definition signedInf :: "bool \<Rightarrow> jsnum" where
  "signedInf pos = (if pos then PosInf else NegInf)"

fun jsmul :: "jsnum \<Rightarrow> jsnum \<Rightarrow> jsnum" where
  "jsmul (Fin a) (Fin b) = Fin (a * b)"
| "jsmul NaN _ = NaN"
| "jsmul _ NaN = NaN"
| "jsmul a b =
     (case (jssign a, jssign b) of
        (Some s, Some t) \<Rightarrow> signedInf (s = t)
      | _ \<Rightarrow> NaN)"

text \<open>
  Division never raises: a finite non-zero number over zero is an infinity of its sign,
  zero over zero is NaN.
\<close>

fun jsdiv :: "jsnum \<Rightarrow> jsnum \<Rightarrow> jsnum" where
  "jsdiv (Fin a) (Fin b) =
     (if b \<noteq> 0 then Fin (a / b)
      else if a > 0 then PosInf else if a < 0 then NegInf else NaN)"
| "jsdiv NaN _ = NaN"
| "jsdiv _ NaN = NaN"
| "jsdiv (Fin a) _ = Fin 0"
| "jsdiv PosInf (Fin b) = (if b \<ge> 0 then PosInf else NegInf)"
| "jsdiv NegInf (Fin b) = (if b \<ge> 0 then NegInf else PosInf)"
| "jsdiv _ _ = NaN"

fun jssqrt :: "jsnum \<Rightarrow> jsnum" where
  "jssqrt (Fin a) = (if a \<ge> 0 then Fin (sqrt a) else NaN)"
| "jssqrt PosInf = PosInf"
| "jssqrt NegInf = NaN"
| "jssqrt NaN = NaN"

text \<open>\<open>a < b\<close> on numbers: false as soon as one side is NaN.\<close>

fun jslt :: "jsnum \<Rightarrow> jsnum \<Rightarrow> bool" where
  "jslt (Fin a) (Fin b) = (a < b)"
| "jslt NaN _ = False"
| "jslt _ NaN = False"
| "jslt _ NegInf = False"
| "jslt PosInf _ = False"
| "jslt _ _ = True"

text \<open>\<open>Math.pow(x, 2)\<close>.\<close>

definition jssquare :: "jsnum \<Rightarrow> jsnum" where
  "jssquare x = jsmul x x"

text \<open>\<open>xs.reduce((a, b) => a + b, 0)\<close>.\<close>

definition jssum :: "jsnum list \<Rightarrow> jsnum" where
  "jssum xs = foldl jsadd (Fin 0) xs"

definition rsum :: "real list \<Rightarrow> real" where
  "rsum xs = foldl (+) 0 xs"

text \<open>
  \<open>x || d\<close> on an optional number: the default is taken when the field is absent and
  also when it is present and zero, since zero is falsy. The cap on open positions is a
  count and is read as a natural number.
\<close>

fun orDefault :: "'a::zero option \<Rightarrow> 'a \<Rightarrow> 'a" where
  "orDefault None d = d"
| "orDefault (Some v) d = (if v = 0 then d else v)"

text \<open>\<open>if (x)\<close> on an optional number: the present, non-zero value.\<close>

fun truthy :: "real option \<Rightarrow> real option" where
  "truthy None = None"
| "truthy (Some v) = (if v = 0 then None else Some v)"


section \<open>Data model (the type declarations)\<close>

datatype SignalType = Buy | Sell | Hold | Close

text \<open>
  Times are milliseconds since the epoch (\<open>Date.getTime()\<close>). Of a Signal only the fields
  the engine reads are kept.
\<close>

record Signal =
  sig_id :: string
  sig_marketId :: string
  sig_type :: SignalType
  sig_entryPrice :: "real option"
  sig_stopLoss :: "real option"
  sig_takeProfit :: "real option"
  sig_expiresAt :: "int option"

datatype Outcome = Win | Loss | Breakeven | Pending

record SignalResult =
  res_signalId :: string
  res_executed :: bool
  res_entryPrice :: real
  res_exitPrice :: "real option"
  res_pnl :: "real option"
  res_pnlPercent :: "jsnum option"
  res_holdingPeriod :: "real option"
  res_outcome :: Outcome

record OutcomeSnapshot =
  out_id :: string
  out_price :: real

record MarketSnapshot =
  snap_id :: string
  snap_outcomes :: "OutcomeSnapshot list"
  snap_resolved :: bool
  snap_timestamp :: int

text \<open>
  The configuration declares a slippage and a fee fraction of its own; the engine never
  reads them (its rates are those of its constructor), they are kept here as declared.
\<close>

record BacktestConfig =
  startDate :: int
  endDate :: int
  initialCapital :: real
  maxConcurrentPositions :: "nat option"
  cfg_slippage :: "real option"
  cfg_fees :: "real option"

text \<open>
  A trade's \<open>id\<close> is a fresh random string and is left out. The \<open>side\<close> of a position
  and of a trade is the signal's type under a type assertion that checks nothing at run
  time, so it ranges over all four signal types.
\<close>

record BacktestTrade =
  tr_marketId :: string
  tr_outcomeId :: string
  tr_side :: SignalType
  tr_entryTime :: int
  tr_exitTime :: "int option"
  tr_entryPrice :: real
  tr_exitPrice :: "real option"
  tr_size :: real
  tr_pnl :: real
  tr_pnlPercent :: jsnum
  tr_fees :: real
  tr_slippage :: real
  tr_signal :: Signal

record EquityPoint =
  ep_timestamp :: int
  ep_equity :: real
  ep_drawdown :: real
  ep_drawdownPercent :: real

record DrawdownPeriod =
  dd_startDate :: int
  dd_endDate :: int
  dd_maxDrawdown :: real
  dd_maxDrawdownPercent :: real
  dd_duration :: real
  dd_recovered :: bool
  dd_recoveryDate :: "int option"

record Position =
  pos_side :: SignalType
  pos_entryPrice :: real
  pos_entryTime :: int
  pos_size :: real
  pos_signal :: Signal

text \<open>
  The strategy is an external collaborator with state of its own: each of the four
  operations the engine calls takes the strategy's state and returns the new one.
\<close>

record 's IStrategy =
  generateSignals :: "'s \<Rightarrow> MarketSnapshot list \<Rightarrow> Signal list \<times> 's"
  validateSignal :: "'s \<Rightarrow> Signal \<Rightarrow> bool \<times> 's"
  getPositionSize :: "'s \<Rightarrow> Signal \<Rightarrow> real \<Rightarrow> real \<times> 's"
  onSignalExecuted :: "'s \<Rightarrow> Signal \<Rightarrow> SignalResult \<Rightarrow> 's"


section \<open>The engine\<close>

record EngineOptions =
  opt_slippage :: "real option"
  opt_fees :: "real option"

record BacktestEngine =
  slippage :: real
  fees :: real

definition newBacktestEngine :: "EngineOptions \<Rightarrow> BacktestEngine" where
  "newBacktestEngine options =
     \<lparr> slippage = orDefault (opt_slippage options) (5 / 1000),
       fees = orDefault (opt_fees options) (2 / 100) \<rparr>"

definition applySlippage :: "BacktestEngine \<Rightarrow> real \<Rightarrow> SignalType \<Rightarrow> real" where
  "applySlippage eng price side =
     (let slippageFactor = (if side = Buy then 1 + slippage eng else 1 - slippage eng)
      in price * slippageFactor)"

definition calculatePnL :: "real \<Rightarrow> real \<Rightarrow> real \<Rightarrow> SignalType \<Rightarrow> real" where
  "calculatePnL entryPrice exitPrice sz side =
     (let priceDiff = (if side = Buy then exitPrice - entryPrice else entryPrice - exitPrice)
      in priceDiff * sz)"

text \<open>
  The expiration test of the source compares the signal's expiry with \<open>new Date()\<close>, the
  wall clock at the moment of the call; \<open>now\<close> is that reading. The market snapshot is a
  parameter the source does not use.
\<close>

definition shouldExitPosition :: "int \<Rightarrow> Position \<Rightarrow> real \<Rightarrow> MarketSnapshot \<Rightarrow> bool" where
  "shouldExitPosition now position currentPrice market =
     (let sg = pos_signal position; side = pos_side position in
      if (case truthy (sig_stopLoss sg) of
            None \<Rightarrow> False
          | Some sl \<Rightarrow> (side = Buy \<and> currentPrice \<le> sl) \<or> (side = Sell \<and> currentPrice \<ge> sl))
      then True
      else if (case truthy (sig_takeProfit sg) of
            None \<Rightarrow> False
          | Some tp \<Rightarrow> (side = Buy \<and> currentPrice \<ge> tp) \<or> (side = Sell \<and> currentPrice \<le> tp))
      then True
      else if (case sig_expiresAt sg of None \<Rightarrow> False | Some e \<Rightarrow> now > e)
      then True
      else False)"

section \<open>The simulation\<close>

text \<open>
  The open positions are a JavaScript \<open>Map\<close> keyed by market id: an association list
  in insertion order, where \<open>set\<close> replaces the entry of a key already present and
  appends a new key at the end (\<open>AList.update\<close>), and \<open>delete\<close> removes the key's entry
  (\<open>AList.delete\<close>). The market data is such a map too, from market id to that market's
  snapshots.
\<close>

record 's SimState =
  trades :: "BacktestTrade list"
  equityCurve :: "EquityPoint list"
  positions :: "(string \<times> Position) list"
  equity :: real
  peakEquity :: real
  strat :: 's

text \<open>
  Reading \<open>market.outcomes[0].price\<close> of a snapshot without outcomes raises a TypeError,
  which aborts the run.
\<close>

datatype Error = TypeError

definition pnlPercentOf :: "real \<Rightarrow> Position \<Rightarrow> jsnum" where
  "pnlPercentOf pnl position =
     jsmul (jsdiv (Fin pnl) (Fin (pos_size position * pos_entryPrice position))) (Fin 100)"

definition exitTrade ::
  "BacktestEngine \<Rightarrow> int \<Rightarrow> string \<Rightarrow> Position \<Rightarrow> OutcomeSnapshot \<Rightarrow> BacktestTrade" where
  "exitTrade eng date marketId position oc =
     (let currentPrice = out_price oc;
          exitPrice = applySlippage eng currentPrice (if pos_side position = Buy then Sell else Buy);
          pnl = calculatePnL (pos_entryPrice position) exitPrice (pos_size position) (pos_side position)
      in \<lparr> tr_marketId = marketId,
           tr_outcomeId = out_id oc,
           tr_side = pos_side position,
           tr_entryTime = pos_entryTime position,
           tr_exitTime = Some date,
           tr_entryPrice = pos_entryPrice position,
           tr_exitPrice = Some exitPrice,
           tr_size = pos_size position,
           tr_pnl = pnl - fees eng * pos_size position * 2,
           tr_pnlPercent = pnlPercentOf pnl position,
           tr_fees = fees eng * pos_size position * 2,
           tr_slippage = \<bar>exitPrice - currentPrice\<bar> * pos_size position,
           tr_signal = pos_signal position \<rparr>)"

definition classifyOutcome :: "real \<Rightarrow> Outcome" where
  "classifyOutcome pnl = (if pnl > 0 then Win else if pnl < 0 then Loss else Breakeven)"

definition exitResult :: "Position \<Rightarrow> BacktestTrade \<Rightarrow> int \<Rightarrow> SignalResult" where
  "exitResult position trade date =
     \<lparr> res_signalId = sig_id (pos_signal position),
       res_executed = True,
       res_entryPrice = pos_entryPrice position,
       res_exitPrice = tr_exitPrice trade,
       res_pnl = Some (tr_pnl trade),
       res_pnlPercent = Some (tr_pnlPercent trade),
       res_holdingPeriod = Some (real_of_int (date - pos_entryTime position) / (1000 * 60 * 60)),
       res_outcome = classifyOutcome (tr_pnl trade) \<rparr>"

text \<open>
  One turn of the exit loop, for the entry \<open>(marketId, position)\<close> of the map. A turn that
  ends in \<open>continue\<close> returns the state as it is.
\<close>

definition processExit ::
  "BacktestEngine \<Rightarrow> 's IStrategy \<Rightarrow> int \<Rightarrow> int \<Rightarrow> MarketSnapshot list \<Rightarrow>
   string \<times> Position \<Rightarrow> 's SimState \<Rightarrow> Error + 's SimState" where
  "processExit eng strategy now date cur entry st =
     (case entry of (marketId, position) \<Rightarrow>
      (case find (\<lambda>m. snap_id m = marketId) cur of
         None \<Rightarrow> Inr st
       | Some market \<Rightarrow>
          (case snap_outcomes market of
             [] \<Rightarrow> Inl TypeError
           | oc # _ \<Rightarrow>
              if shouldExitPosition now position (out_price oc) market \<or> snap_resolved market
              then (let trade = exitTrade eng date marketId position oc in
                    Inr (st\<lparr> trades := trades st @ [trade],
                             equity := equity st + tr_pnl trade,
                             positions := AList.delete marketId (positions st),
                             strat := onSignalExecuted strategy (strat st) (pos_signal position)
                                        (exitResult position trade date) \<rparr>))
              else Inr st)))"

text \<open>
  The loop runs over the map's entries as they stand when it starts; a turn deletes at
  most its own entry, which the iteration has already passed.
\<close>

fun exitLoop ::
  "BacktestEngine \<Rightarrow> 's IStrategy \<Rightarrow> int \<Rightarrow> int \<Rightarrow> MarketSnapshot list \<Rightarrow>
   (string \<times> Position) list \<Rightarrow> 's SimState \<Rightarrow> Error + 's SimState" where
  "exitLoop eng strategy now date cur [] st = Inr st"
| "exitLoop eng strategy now date cur (entry # rest) st =
     (case processExit eng strategy now date cur entry st of
        Inl e \<Rightarrow> Inl e
      | Inr st' \<Rightarrow> exitLoop eng strategy now date cur rest st')"

text \<open>\<open>signal.entryPrice || market.outcomes[0].price\<close>: the right operand is read only
  when the left one is absent or zero.\<close>

definition entryReference :: "Signal \<Rightarrow> MarketSnapshot \<Rightarrow> real option" where
  "entryReference signal market =
     (case truthy (sig_entryPrice signal) of
        Some v \<Rightarrow> Some v
      | None \<Rightarrow> (case snap_outcomes market of [] \<Rightarrow> None | oc # _ \<Rightarrow> Some (out_price oc)))"

definition positionCap :: "BacktestConfig \<Rightarrow> nat" where
  "positionCap config = orDefault (maxConcurrentPositions config) 10"

definition processSignal ::
  "BacktestEngine \<Rightarrow> 's IStrategy \<Rightarrow> BacktestConfig \<Rightarrow> int \<Rightarrow> MarketSnapshot list \<Rightarrow>
   Signal \<Rightarrow> 's SimState \<Rightarrow> Error + 's SimState" where
  "processSignal eng strategy config date cur signal st =
     (if length (positions st) \<ge> positionCap config then Inr st
      else if map_of (positions st) (sig_marketId signal) \<noteq> None then Inr st
      else
        (case validateSignal strategy (strat st) signal of (isValid, s1) \<Rightarrow>
           if \<not> isValid then Inr (st\<lparr> strat := s1 \<rparr>)
           else
             (case find (\<lambda>m. snap_id m = sig_marketId signal) cur of
                None \<Rightarrow> Inr (st\<lparr> strat := s1 \<rparr>)
              | Some market \<Rightarrow>
                 if snap_resolved market then Inr (st\<lparr> strat := s1 \<rparr>)
                 else
                   (case getPositionSize strategy s1 signal (equity st) of (positionSize, s2) \<Rightarrow>
                      if positionSize < 1 then Inr (st\<lparr> strat := s2 \<rparr>)
                      else
                        (case entryReference signal market of
                           None \<Rightarrow> Inl TypeError
                         | Some reference \<Rightarrow>
                            Inr (st\<lparr> strat := s2,
                                     positions :=
                                       AList.update (sig_marketId signal)
                                         \<lparr> pos_side = sig_type signal,
                                           pos_entryPrice = applySlippage eng reference (sig_type signal),
                                           pos_entryTime = date,
                                           pos_size = positionSize,
                                           pos_signal = signal \<rparr>
                                         (positions st) \<rparr>))))))"

fun signalLoop ::
  "BacktestEngine \<Rightarrow> 's IStrategy \<Rightarrow> BacktestConfig \<Rightarrow> int \<Rightarrow> MarketSnapshot list \<Rightarrow>
   Signal list \<Rightarrow> 's SimState \<Rightarrow> Error + 's SimState" where
  "signalLoop eng strategy config date cur [] st = Inr st"
| "signalLoop eng strategy config date cur (signal # rest) st =
     (case processSignal eng strategy config date cur signal st of
        Inl e \<Rightarrow> Inl e
      | Inr st' \<Rightarrow> signalLoop eng strategy config date cur rest st')"

definition sortedTimestamps :: "(string \<times> MarketSnapshot list) list \<Rightarrow> int list" where
  "sortedTimestamps marketData =
     sort (remdups (concat (map (\<lambda>kv. map snap_timestamp (snd kv)) marketData)))"

definition currentSnapshots ::
  "(string \<times> MarketSnapshot list) list \<Rightarrow> int \<Rightarrow> MarketSnapshot list" where
  "currentSnapshots marketData timestamp =
     List.map_filter (\<lambda>kv. find (\<lambda>s. snap_timestamp s = timestamp) (snd kv)) marketData"

definition recordEquity :: "int \<Rightarrow> 's SimState \<Rightarrow> 's SimState" where
  "recordEquity date st =
     (let peak = max (peakEquity st) (equity st);
          drawdown = peak - equity st;
          drawdownPercent = (if peak > 0 then drawdown / peak else 0)
      in st\<lparr> peakEquity := peak,
              equityCurve := equityCurve st @
                [\<lparr> ep_timestamp = date, ep_equity = equity st,
                   ep_drawdown = drawdown, ep_drawdownPercent = drawdownPercent \<rparr>] \<rparr>)"

text \<open>One time step: exits, then new signals, then the equity point.\<close>

definition frameStep ::
  "BacktestEngine \<Rightarrow> 's IStrategy \<Rightarrow> (string \<times> MarketSnapshot list) list \<Rightarrow> BacktestConfig \<Rightarrow>
   int \<Rightarrow> int \<Rightarrow> 's SimState \<Rightarrow> Error + 's SimState" where
  "frameStep eng strategy marketData config now timestamp st =
     (let cur = currentSnapshots marketData timestamp in
      if cur = [] then Inr st
      else
        (case exitLoop eng strategy now timestamp cur (positions st) st of
           Inl e \<Rightarrow> Inl e
         | Inr st1 \<Rightarrow>
            (case generateSignals strategy (strat st1) cur of (signals, s') \<Rightarrow>
               (case signalLoop eng strategy config timestamp cur signals (st1\<lparr> strat := s' \<rparr>) of
                  Inl e \<Rightarrow> Inl e
                | Inr st2 \<Rightarrow> Inr (recordEquity timestamp st2)))))"

fun frameLoop ::
  "BacktestEngine \<Rightarrow> 's IStrategy \<Rightarrow> (string \<times> MarketSnapshot list) list \<Rightarrow> BacktestConfig \<Rightarrow>
   int \<Rightarrow> int list \<Rightarrow> 's SimState \<Rightarrow> Error + 's SimState" where
  "frameLoop eng strategy marketData config now [] st = Inr st"
| "frameLoop eng strategy marketData config now (timestamp # rest) st =
     (case frameStep eng strategy marketData config now timestamp st of
        Inl e \<Rightarrow> Inl e
      | Inr st' \<Rightarrow> frameLoop eng strategy marketData config now rest st')"

definition lastSnapshots :: "(string \<times> MarketSnapshot list) list \<Rightarrow> MarketSnapshot list" where
  "lastSnapshots marketData =
     List.map_filter (\<lambda>kv. if snd kv = [] then None else Some (last (snd kv))) marketData"

text \<open>
  Closing what is still open at the end: the trade is pushed, with the configured end
  date as exit time and no slippage; nothing else of the state is written.
\<close>

definition finalTrade ::
  "BacktestEngine \<Rightarrow> BacktestConfig \<Rightarrow> string \<Rightarrow> Position \<Rightarrow> OutcomeSnapshot \<Rightarrow> BacktestTrade" where
  "finalTrade eng config marketId position oc =
     (let exitPrice = out_price oc;
          pnl = calculatePnL (pos_entryPrice position) exitPrice (pos_size position) (pos_side position)
      in \<lparr> tr_marketId = marketId,
           tr_outcomeId = out_id oc,
           tr_side = pos_side position,
           tr_entryTime = pos_entryTime position,
           tr_exitTime = Some (endDate config),
           tr_entryPrice = pos_entryPrice position,
           tr_exitPrice = Some exitPrice,
           tr_size = pos_size position,
           tr_pnl = pnl - fees eng * pos_size position * 2,
           tr_pnlPercent = pnlPercentOf pnl position,
           tr_fees = fees eng * pos_size position * 2,
           tr_slippage = 0,
           tr_signal = pos_signal position \<rparr>)"

definition processFinal ::
  "BacktestEngine \<Rightarrow> (string \<times> MarketSnapshot list) list \<Rightarrow> BacktestConfig \<Rightarrow>
   string \<times> Position \<Rightarrow> 's SimState \<Rightarrow> Error + 's SimState" where
  "processFinal eng marketData config entry st =
     (case entry of (marketId, position) \<Rightarrow>
      (case find (\<lambda>m. snap_id m = marketId) (lastSnapshots marketData) of
         None \<Rightarrow> Inr st
       | Some market \<Rightarrow>
          (case snap_outcomes market of
             [] \<Rightarrow> Inl TypeError
           | oc # _ \<Rightarrow>
              Inr (st\<lparr> trades := trades st @ [finalTrade eng config marketId position oc] \<rparr>))))"

fun finalLoop ::
  "BacktestEngine \<Rightarrow> (string \<times> MarketSnapshot list) list \<Rightarrow> BacktestConfig \<Rightarrow>
   (string \<times> Position) list \<Rightarrow> 's SimState \<Rightarrow> Error + 's SimState" where
  "finalLoop eng marketData config [] st = Inr st"
| "finalLoop eng marketData config (entry # rest) st =
     (case processFinal eng marketData config entry st of
        Inl e \<Rightarrow> Inl e
      | Inr st' \<Rightarrow> finalLoop eng marketData config rest st')"

definition initialState :: "BacktestConfig \<Rightarrow> 's \<Rightarrow> 's SimState" where
  "initialState config s0 =
     \<lparr> trades = [], equityCurve = [], positions = [],
       equity = initialCapital config, peakEquity = initialCapital config, strat = s0 \<rparr>"

text \<open>
  \<open>simulateState\<close> is the body of \<open>simulate\<close> with all its local variables at the
  \<open>return\<close>; \<open>simulate\<close> returns the two of them the source returns. The wall clock
  \<open>now\<close> is taken to stand still while the run lasts, and the strategy's operations to
  return without raising.
\<close>

definition simulateState ::
  "BacktestEngine \<Rightarrow> 's IStrategy \<Rightarrow> 's \<Rightarrow> (string \<times> MarketSnapshot list) list \<Rightarrow>
   BacktestConfig \<Rightarrow> int \<Rightarrow> Error + 's SimState" where
  "simulateState eng strategy s0 marketData config now =
     (case frameLoop eng strategy marketData config now (sortedTimestamps marketData)
             (initialState config s0) of
        Inl e \<Rightarrow> Inl e
      | Inr st \<Rightarrow> finalLoop eng marketData config (positions st) st)"

definition simulate ::
  "BacktestEngine \<Rightarrow> 's IStrategy \<Rightarrow> 's \<Rightarrow> (string \<times> MarketSnapshot list) list \<Rightarrow>
   BacktestConfig \<Rightarrow> int \<Rightarrow> Error + (BacktestTrade list \<times> EquityPoint list)" where
  "simulate eng strategy s0 marketData config now =
     (case simulateState eng strategy s0 marketData config now of
        Inl e \<Rightarrow> Inl e
      | Inr st \<Rightarrow> Inr (trades st, equityCurve st))"

section \<open>Statistics helpers\<close>

definition sharpeRatio :: "jsnum list \<Rightarrow> jsnum \<Rightarrow> jsnum" where
  "sharpeRatio returns riskFreeRate =
     (if length returns = 0 then Fin 0
      else
        (let avgReturn = jsdiv (jssum returns) (Fin (real (length returns)));
             excessReturn = jssub avgReturn riskFreeRate;
             squaredDiffs = map (\<lambda>r. jssquare (jssub r avgReturn)) returns;
             variance = jsdiv (jssum squaredDiffs) (Fin (real (length returns)));
             stdDev = jssqrt variance
         in if stdDev = Fin 0 then Fin 0 else jsdiv excessReturn stdDev))"

definition sortinoRatio :: "jsnum list \<Rightarrow> jsnum \<Rightarrow> jsnum" where
  "sortinoRatio returns riskFreeRate =
     (if length returns = 0 then Fin 0
      else
        (let avgReturn = jsdiv (jssum returns) (Fin (real (length returns)));
             excessReturn = jssub avgReturn riskFreeRate;
             negativeReturns = filter (\<lambda>r. jslt r riskFreeRate) returns
         in if length negativeReturns = 0 then PosInf
            else
              (let squaredDiffs = map (\<lambda>r. jssquare (jssub r riskFreeRate)) negativeReturns;
                   downVariance = jsdiv (jssum squaredDiffs) (Fin (real (length negativeReturns)));
                   downDev = jssqrt downVariance
               in if downDev = Fin 0 then Fin 0 else jsdiv excessReturn downDev)))"

text \<open>The loop of \<open>maxDrawdown\<close> over \<open>(peak, maxDD, maxDDPercent)\<close>.\<close>

fun maxDrawdownLoop :: "real list \<Rightarrow> real \<times> real \<times> real \<Rightarrow> real \<times> real \<times> real" where
  "maxDrawdownLoop [] acc = acc"
| "maxDrawdownLoop (e # es) (peak, maxDD, maxDDPercent) =
     (let peak' = (if e > peak then e else peak);
          dd = peak' - e;
          ddPercent = (if peak' > 0 then dd / peak' else 0)
      in if dd > maxDD then maxDrawdownLoop es (peak', dd, ddPercent)
         else maxDrawdownLoop es (peak', maxDD, maxDDPercent))"

text \<open>The result is the pair \<open>(value, percent)\<close>.\<close>

fun maxDrawdown :: "real list \<Rightarrow> real \<times> real" where
  "maxDrawdown [] = (0, 0)"
| "maxDrawdown (e # es) = snd (maxDrawdownLoop (e # es) (e, 0, 0))"

text \<open>
  \<open>Math.pow\<close> on finite arguments: a negative base has a power only for an integral
  exponent.
\<close>

definition jspow :: "real \<Rightarrow> real \<Rightarrow> jsnum" where
  "jspow b e =
     (if e = 0 then Fin 1
      else if b > 0 then Fin (b powr e)
      else if b = 0 then (if e > 0 then Fin 0 else PosInf)
      else if e = of_int \<lfloor>e\<rfloor> then Fin (b powi \<lfloor>e\<rfloor>)
      else NaN)"

definition cagr :: "real \<Rightarrow> real \<Rightarrow> real \<Rightarrow> jsnum" where
  "cagr startValue endValue years =
     (if startValue \<le> 0 \<or> years \<le> 0 then Fin 0
      else jssub (jspow (endValue / startValue) (1 / years)) (Fin 1))"


section \<open>Summary, drawdown periods and metrics\<close>

record BacktestSummary =
  sum_totalTrades :: nat
  sum_winningTrades :: nat
  sum_losingTrades :: nat
  sum_winRate :: real
  sum_totalPnl :: real
  sum_totalReturn :: real
  sum_maxDrawdown :: real
  sum_sharpeRatio :: jsnum
  sum_sortinoRatio :: jsnum
  sum_profitFactor :: jsnum
  sum_averageWin :: real
  sum_averageLoss :: real
  sum_largestWin :: real
  sum_largestLoss :: real
  sum_averageHoldingPeriod :: real
  sum_exposure :: real

record PerformanceMetrics =
  met_cagr :: jsnum
  met_volatility :: jsnum
  met_sharpeRatio :: jsnum
  met_sortinoRatio :: jsnum
  met_calmarRatio :: jsnum
  met_maxDrawdown :: real
  met_maxDrawdownDuration :: real
  met_winRate :: real
  met_profitFactor :: jsnum
  met_expectancy :: real
  met_payoffRatio :: real
  met_ulcerIndex :: jsnum

text \<open>The per-step returns: \<open>equityCurve.slice(1).map((e, i) => ...)\<close>, where
  \<open>equityCurve[i]\<close> is the point before \<open>e\<close>.\<close>

definition stepReturns :: "EquityPoint list \<Rightarrow> jsnum list" where
  "stepReturns curve =
     map (\<lambda>(e, prev). jsdiv (Fin (ep_equity e - ep_equity prev)) (Fin (ep_equity prev)))
       (zip (tl curve) curve)"

text \<open>\<open>Math.max(...xs)\<close> of a list the source has checked to be non-empty.\<close>

fun maxOf :: "real list \<Rightarrow> real" where
  "maxOf [] = 0"
| "maxOf (x # xs) = foldl max x xs"

definition holdingPeriodsOf :: "BacktestTrade list \<Rightarrow> real list" where
  "holdingPeriodsOf ts =
     List.map_filter
       (\<lambda>t. case tr_exitTime t of
               None \<Rightarrow> None
             | Some x \<Rightarrow> Some (real_of_int (x - tr_entryTime t) / (1000 * 60 * 60))) ts"

definition calculateExposure :: "BacktestTrade list \<Rightarrow> EquityPoint list \<Rightarrow> real" where
  "calculateExposure ts curve =
     (if length curve = 0 then 0
      else
        (let totalDuration = ep_timestamp (last curve) - ep_timestamp (hd curve);
             exposedTime =
               foldl (\<lambda>acc t. case tr_exitTime t of
                                 None \<Rightarrow> acc
                               | Some x \<Rightarrow> acc + (x - tr_entryTime t)) 0 ts
         in if totalDuration > 0 then real_of_int exposedTime / real_of_int totalDuration else 0))"

definition profitFactorOf :: "real \<Rightarrow> real \<Rightarrow> jsnum" where
  "profitFactorOf grossProfit grossLoss =
     (if grossLoss > 0 then Fin (grossProfit / grossLoss) else PosInf)"

definition calculateSummary ::
  "BacktestTrade list \<Rightarrow> EquityPoint list \<Rightarrow> BacktestConfig \<Rightarrow> BacktestSummary" where
  "calculateSummary ts curve config =
     (let winningTrades = filter (\<lambda>t. tr_pnl t > 0) ts;
          losingTrades = filter (\<lambda>t. tr_pnl t < 0) ts;
          totalPnl = rsum (map tr_pnl ts);
          grossProfit = rsum (map tr_pnl winningTrades);
          grossLoss = \<bar>rsum (map tr_pnl losingTrades)\<bar>;
          returns = stepReturns curve;
          holdingPeriods = holdingPeriodsOf ts;
          dd = maxDrawdown (map ep_equity curve)
      in \<lparr> sum_totalTrades = length ts,
           sum_winningTrades = length winningTrades,
           sum_losingTrades = length losingTrades,
           sum_winRate =
             (if length ts > 0 then real (length winningTrades) / real (length ts) else 0),
           sum_totalPnl = totalPnl,
           sum_totalReturn =
             (if initialCapital config > 0 then totalPnl / initialCapital config else 0),
           sum_maxDrawdown = snd dd,
           sum_sharpeRatio = sharpeRatio returns (Fin 0),
           sum_sortinoRatio = sortinoRatio returns (Fin 0),
           sum_profitFactor = profitFactorOf grossProfit grossLoss,
           sum_averageWin =
             (if length winningTrades > 0 then grossProfit / real (length winningTrades) else 0),
           sum_averageLoss =
             (if length losingTrades > 0 then grossLoss / real (length losingTrades) else 0),
           sum_largestWin =
             (if length winningTrades > 0 then maxOf (map tr_pnl winningTrades) else 0),
           sum_largestLoss =
             (if length losingTrades > 0 then maxOf (map (\<lambda>t. \<bar>tr_pnl t\<bar>) losingTrades) else 0),
           sum_averageHoldingPeriod =
             (if length holdingPeriods > 0
              then rsum holdingPeriods / real (length holdingPeriods) else 0),
           sum_exposure = calculateExposure ts curve \<rparr>)"

text \<open>
  The state of the scan in \<open>calculateDrawdowns\<close>: the periods pushed so far and the four
  local variables.
\<close>

record DrawdownScan =
  drawdowns :: "DrawdownPeriod list"
  peak :: real
  peakDate :: int
  inDrawdown :: bool
  currentDrawdown :: "DrawdownPeriod option"

definition drawdownStep :: "DrawdownScan \<Rightarrow> EquityPoint \<Rightarrow> DrawdownScan" where
  "drawdownStep s point =
     (if ep_equity point > peak s then
        (let s1 =
           (case (inDrawdown s, currentDrawdown s) of
              (True, Some cd) \<Rightarrow>
                s\<lparr> drawdowns := drawdowns s @
                      [cd\<lparr> dd_recovered := True, dd_recoveryDate := Some (ep_timestamp point) \<rparr>],
                   currentDrawdown := None,
                   inDrawdown := False \<rparr>
            | _ \<Rightarrow> s)
         in s1\<lparr> peak := ep_equity point, peakDate := ep_timestamp point \<rparr>)
      else if ep_drawdown point > 0 then
        (if \<not> inDrawdown s then
           s\<lparr> inDrawdown := True,
              currentDrawdown := Some
                \<lparr> dd_startDate = peakDate s,
                  dd_endDate = ep_timestamp point,
                  dd_maxDrawdown = ep_drawdown point,
                  dd_maxDrawdownPercent = ep_drawdownPercent point,
                  dd_duration = 0,
                  dd_recovered = False,
                  dd_recoveryDate = None \<rparr> \<rparr>
         else
           (case currentDrawdown s of
              None \<Rightarrow> s
            | Some cd \<Rightarrow>
               (let cd1 = cd\<lparr> dd_endDate := ep_timestamp point \<rparr>;
                    cd2 = (if ep_drawdown point > dd_maxDrawdown cd1
                           then cd1\<lparr> dd_maxDrawdown := ep_drawdown point,
                                    dd_maxDrawdownPercent := ep_drawdownPercent point \<rparr>
                           else cd1);
                    cd3 = cd2\<lparr> dd_duration :=
                            real_of_int (dd_endDate cd2 - dd_startDate cd2) / (1000 * 60 * 60 * 24) \<rparr>
                in s\<lparr> currentDrawdown := Some cd3 \<rparr>)))
      else s)"

definition drawdownFinish :: "DrawdownScan \<Rightarrow> DrawdownPeriod list" where
  "drawdownFinish s =
     (case (inDrawdown s, currentDrawdown s) of
        (True, Some cd) \<Rightarrow> drawdowns s @ [cd]
      | _ \<Rightarrow> drawdowns s)"

text \<open>
  On an empty curve the initial peak is 0 and the peak date is undefined; the loop does
  not run and neither is read.
\<close>

fun calculateDrawdowns :: "EquityPoint list \<Rightarrow> DrawdownPeriod list" where
  "calculateDrawdowns [] = []"
| "calculateDrawdowns (p0 # ps) =
     drawdownFinish
       (foldl drawdownStep
          \<lparr> drawdowns = [],
            peak = orDefault (Some (ep_equity p0)) 0,
            peakDate = ep_timestamp p0,
            inDrawdown = False,
            currentDrawdown = None \<rparr>
          (p0 # ps))"

text \<open>The loop of \<open>getMaxDrawdownDuration\<close> over \<open>(maxDuration, peak, peakDate)\<close>.\<close>

fun maxDurationLoop :: "EquityPoint list \<Rightarrow> real \<times> real \<times> int \<Rightarrow> real \<times> real \<times> int" where
  "maxDurationLoop [] acc = acc"
| "maxDurationLoop (point # ps) (maxDuration, pk, pkDate) =
     (if ep_equity point > pk then
        (let duration = real_of_int (ep_timestamp point - pkDate) / (1000 * 60 * 60 * 24)
         in maxDurationLoop ps (max maxDuration duration, ep_equity point, ep_timestamp point))
      else maxDurationLoop ps (maxDuration, pk, pkDate))"

fun getMaxDrawdownDuration :: "EquityPoint list \<Rightarrow> real" where
  "getMaxDrawdownDuration [] = 0"
| "getMaxDrawdownDuration (p0 # ps) =
     fst (maxDurationLoop (p0 # ps) (0, orDefault (Some (ep_equity p0)) 0, ep_timestamp p0))"

definition calculateMetrics ::
  "BacktestTrade list \<Rightarrow> EquityPoint list \<Rightarrow> BacktestConfig \<Rightarrow> PerformanceMetrics" where
  "calculateMetrics ts curve config =
     (let returns = stepReturns curve;
          startEquity = initialCapital config;
          endEquity = (if curve = [] then startEquity
                       else orDefault (Some (ep_equity (last curve))) startEquity);
          years = real_of_int (endDate config - startDate config) / (1000 * 60 * 60 * 24 * 365);
          dd = maxDrawdown (map ep_equity curve);
          winningTrades = filter (\<lambda>t. tr_pnl t > 0) ts;
          losingTrades = filter (\<lambda>t. tr_pnl t < 0) ts;
          grossProfit = rsum (map tr_pnl winningTrades);
          grossLoss = \<bar>rsum (map tr_pnl losingTrades)\<bar>;
          avgWin = (if length winningTrades > 0 then grossProfit / real (length winningTrades) else 0);
          avgLoss = (if length losingTrades > 0 then grossLoss / real (length losingTrades) else 1);
          winRate = (if length ts > 0 then real (length winningTrades) / real (length ts) else 0);
          expectancy = (winRate * avgWin) - ((1 - winRate) * avgLoss);
          avgReturn = (if length returns > 0
                       then jsdiv (jssum returns) (Fin (real (length returns))) else Fin 0);
          squaredDiffs = map (\<lambda>r. jssquare (jssub r avgReturn)) returns;
          variance = (if length squaredDiffs > 0
                      then jsdiv (jssum squaredDiffs) (Fin (real (length squaredDiffs))) else Fin 0);
          volatility = jsmul (jssqrt variance) (Fin (sqrt 252));
          squaredDrawdowns = map (\<lambda>e. (ep_drawdownPercent e * 100)\<^sup>2) curve;
          ulcerIndex = jssqrt (jsdiv (Fin (rsum squaredDrawdowns))
                                 (Fin (real (length squaredDrawdowns))))
      in \<lparr> met_cagr = cagr startEquity endEquity years,
           met_volatility = volatility,
           met_sharpeRatio = sharpeRatio returns (Fin 0),
           met_sortinoRatio = sortinoRatio returns (Fin 0),
           met_calmarRatio =
             (if snd dd > 0 then jsdiv (cagr startEquity endEquity years) (Fin (snd dd)) else Fin 0),
           met_maxDrawdown = snd dd,
           met_maxDrawdownDuration = getMaxDrawdownDuration curve,
           met_winRate = winRate,
           met_profitFactor = profitFactorOf grossProfit grossLoss,
           met_expectancy = expectancy,
           met_payoffRatio = (if avgLoss > 0 then avgWin / avgLoss else 0),
           met_ulcerIndex = ulcerIndex \<rparr>)"


section \<open>A whole run\<close>

text \<open>
  \<open>run\<close> after the strategy has been initialised (\<open>s0\<close> is the strategy's state then) and
  the market data has been fetched. The monthly returns, which depend on the local
  calendar, are left out of the result.
\<close>

record BacktestResult =
  r_config :: BacktestConfig
  r_summary :: BacktestSummary
  r_trades :: "BacktestTrade list"
  r_equityCurve :: "EquityPoint list"
  r_drawdowns :: "DrawdownPeriod list"
  r_metrics :: PerformanceMetrics

definition run ::
  "BacktestEngine \<Rightarrow> 's IStrategy \<Rightarrow> 's \<Rightarrow> (string \<times> MarketSnapshot list) list \<Rightarrow>
   BacktestConfig \<Rightarrow> int \<Rightarrow> Error + BacktestResult" where
  "run eng strategy s0 marketData config now =
     (case simulate eng strategy s0 marketData config now of
        Inl e \<Rightarrow> Inl e
      | Inr (ts, curve) \<Rightarrow>
          Inr \<lparr> r_config = config,
                r_summary = calculateSummary ts curve config,
                r_trades = ts,
                r_equityCurve = curve,
                r_drawdowns = calculateDrawdowns curve,
                r_metrics = calculateMetrics ts curve config \<rparr>)"


section \<open>Concrete inputs\<close>

subsection \<open>Strategies and quotes\<close>

text \<open>
  A strategy that emits the given signals at its first call and none afterwards,
  accepts every signal and sizes every position at 100; its state counts the calls of
  \<open>generateSignals\<close>. A strategy that keeps the log of the outcomes it is notified of.
  A snapshot of an unresolved market with one outcome.
\<close>

definition onceStrategy :: "Signal list \<Rightarrow> nat IStrategy" where
  "onceStrategy sigs =
     \<lparr> generateSignals = (\<lambda>n cur. (if n = 0 then sigs else [], Suc n)),
       validateSignal = (\<lambda>n sg. (True, n)),
       getPositionSize = (\<lambda>n sg capital. (100, n)),
       onSignalExecuted = (\<lambda>n sg r. n) \<rparr>"

definition loggingStrategy :: "Outcome list IStrategy" where
  "loggingStrategy =
     \<lparr> generateSignals = (\<lambda>log cur. ([], log)),
       validateSignal = (\<lambda>log sg. (True, log)),
       getPositionSize = (\<lambda>log sg capital. (100, log)),
       onSignalExecuted = (\<lambda>log sg r. log @ [res_outcome r]) \<rparr>"

definition quote :: "string \<Rightarrow> int \<Rightarrow> real \<Rightarrow> MarketSnapshot" where
  "quote m t p =
     \<lparr> snap_id = m, snap_outcomes = [\<lparr> out_id = ''yes'', out_price = p \<rparr>],
       snap_resolved = False, snap_timestamp = t \<rparr>"

subsection \<open>Scenario A\<close>

text \<open>
  One market quoted at 0.40 and then at 0.60, a strategy that buys 100 at the first tick
  with a take-profit at 0.60, capital 10000, and zero slippage and fees both in the
  options the engine is constructed with and in the run's configuration. The trade and
  the curve are what the run returns; the position is the one open when the quote of
  0.60 arrives.
\<close>

definition scenarioA_signal :: Signal where
  "scenarioA_signal =
     \<lparr> sig_id = ''s1'', sig_marketId = ''m1'', sig_type = Buy, sig_entryPrice = None,
       sig_stopLoss = None, sig_takeProfit = Some (6 / 10), sig_expiresAt = None \<rparr>"

definition scenarioA_data :: "(string \<times> MarketSnapshot list) list" where
  "scenarioA_data = [(''m1'', [quote ''m1'' 1000 (4 / 10), quote ''m1'' 2000 (6 / 10)])]"

definition scenarioA_config :: BacktestConfig where
  "scenarioA_config =
     \<lparr> startDate = 0, endDate = 3000, initialCapital = 10000, maxConcurrentPositions = None,
       cfg_slippage = Some 0, cfg_fees = Some 0 \<rparr>"

definition scenarioA_engine :: BacktestEngine where
  "scenarioA_engine = newBacktestEngine \<lparr> opt_slippage = Some 0, opt_fees = Some 0 \<rparr>"

definition scenarioA_position :: Position where
  "scenarioA_position =
     \<lparr> pos_side = Buy, pos_entryPrice = 201 / 500, pos_entryTime = 1000, pos_size = 100,
       pos_signal = scenarioA_signal \<rparr>"

definition scenarioA_trade :: BacktestTrade where
  "scenarioA_trade =
     \<lparr> tr_marketId = ''m1'', tr_outcomeId = ''yes'', tr_side = Buy,
       tr_entryTime = 1000, tr_exitTime = Some 2000,
       tr_entryPrice = 201 / 500, tr_exitPrice = Some (597 / 1000),
       tr_size = 100, tr_pnl = 31 / 2, tr_pnlPercent = Fin (3250 / 67),
       tr_fees = 4, tr_slippage = 3 / 10, tr_signal = scenarioA_signal \<rparr>"

definition scenarioA_curve :: "EquityPoint list" where
  "scenarioA_curve =
     [\<lparr> ep_timestamp = 1000, ep_equity = 10000, ep_drawdown = 0, ep_drawdownPercent = 0 \<rparr>,
      \<lparr> ep_timestamp = 2000, ep_equity = 20031 / 2, ep_drawdown = 0, ep_drawdownPercent = 0 \<rparr>]"

text \<open>The same run on an engine whose two rates are zero, and the engine constructed
  without options.\<close>

definition costFreeEngine :: BacktestEngine where
  "costFreeEngine = \<lparr> slippage = 0, fees = 0 \<rparr>"

definition costFree_trade :: BacktestTrade where
  "costFree_trade =
     \<lparr> tr_marketId = ''m1'', tr_outcomeId = ''yes'', tr_side = Buy,
       tr_entryTime = 1000, tr_exitTime = Some 2000,
       tr_entryPrice = 4 / 10, tr_exitPrice = Some (6 / 10),
       tr_size = 100, tr_pnl = 20, tr_pnlPercent = Fin 50,
       tr_fees = 0, tr_slippage = 0, tr_signal = scenarioA_signal \<rparr>"

definition costFree_curve :: "EquityPoint list" where
  "costFree_curve =
     [\<lparr> ep_timestamp = 1000, ep_equity = 10000, ep_drawdown = 0, ep_drawdownPercent = 0 \<rparr>,
      \<lparr> ep_timestamp = 2000, ep_equity = 10020, ep_drawdown = 0, ep_drawdownPercent = 0 \<rparr>]"

definition defaultEngine :: BacktestEngine where
  "defaultEngine = newBacktestEngine \<lparr> opt_slippage = None, opt_fees = None \<rparr>"

text \<open>The state of a run of scenario A before its first tick, for either strategy.\<close>

definition loggingState :: "Outcome list SimState" where
  "loggingState = initialState scenarioA_config []"

definition countingState :: "nat SimState" where
  "countingState = initialState scenarioA_config 0"

text \<open>The run in which the strategy never emits a signal, and the result it returns.\<close>

definition idle_curve :: "EquityPoint list" where
  "idle_curve =
     [\<lparr> ep_timestamp = 1000, ep_equity = 10000, ep_drawdown = 0, ep_drawdownPercent = 0 \<rparr>,
      \<lparr> ep_timestamp = 2000, ep_equity = 10000, ep_drawdown = 0, ep_drawdownPercent = 0 \<rparr>]"

definition idle_result :: BacktestResult where
  "idle_result =
     \<lparr> r_config = scenarioA_config,
       r_summary = calculateSummary [] idle_curve scenarioA_config,
       r_trades = [],
       r_equityCurve = idle_curve,
       r_drawdowns = calculateDrawdowns idle_curve,
       r_metrics = calculateMetrics [] idle_curve scenarioA_config \<rparr>"

subsection \<open>Signals that expire, stay open, or compete for a market\<close>

text \<open>
  A signal that expires at time 10000, held over three ticks at 1000, 2000 and 3000, all
  before the expiry; the market is never resolved and the signal has no stop and no
  target.
\<close>

definition expiring_signal :: Signal where
  "expiring_signal =
     \<lparr> sig_id = ''s2'', sig_marketId = ''m1'', sig_type = Buy, sig_entryPrice = None,
       sig_stopLoss = None, sig_takeProfit = None, sig_expiresAt = Some 10000 \<rparr>"

definition expiring_data :: "(string \<times> MarketSnapshot list) list" where
  "expiring_data =
     [(''m1'', [quote ''m1'' 1000 (40 / 100), quote ''m1'' 2000 (41 / 100),
                quote ''m1'' 3000 (42 / 100)])]"

definition expiring_position :: Position where
  "expiring_position =
     \<lparr> pos_side = Buy, pos_entryPrice = 4 / 10, pos_entryTime = 1000, pos_size = 100,
       pos_signal = expiring_signal \<rparr>"

text \<open>
  A signal that nothing closes before the data ends; a buy signal that names its own
  entry price of 0.30; the snapshot of the market resolved against the outcome, quoted
  at 0; a second signal for the market of the first; the state after the first and the
  second have been processed at the tick of 1000, and after the whole frame of that
  tick; a configuration with a cap of zero, and one with a cap of one.
\<close>

definition open_signal :: Signal where
  "open_signal =
     \<lparr> sig_id = ''s3'', sig_marketId = ''m1'', sig_type = Buy, sig_entryPrice = None,
       sig_stopLoss = None, sig_takeProfit = None, sig_expiresAt = None \<rparr>"

definition limit_signal :: Signal where
  "limit_signal =
     \<lparr> sig_id = ''s5'', sig_marketId = ''m1'', sig_type = Buy, sig_entryPrice = Some (3 / 10),
       sig_stopLoss = None, sig_takeProfit = None, sig_expiresAt = None \<rparr>"

definition lostQuote :: MarketSnapshot where
  "lostQuote =
     \<lparr> snap_id = ''m1'', snap_outcomes = [\<lparr> out_id = ''yes'', out_price = 0 \<rparr>],
       snap_resolved = True, snap_timestamp = 2000 \<rparr>"

definition second_signal :: Signal where
  "second_signal =
     \<lparr> sig_id = ''s4'', sig_marketId = ''m1'', sig_type = Sell, sig_entryPrice = None,
       sig_stopLoss = None, sig_takeProfit = None, sig_expiresAt = None \<rparr>"

definition twoSignals_position :: Position where
  "twoSignals_position =
     \<lparr> pos_side = Buy, pos_entryPrice = 201 / 500, pos_entryTime = 1000, pos_size = 100,
       pos_signal = open_signal \<rparr>"

definition twoSignals_opened :: "nat SimState" where
  "twoSignals_opened = countingState\<lparr> positions := [(''m1'', twoSignals_position)] \<rparr>"

definition twoSignals_frame :: "nat SimState" where
  "twoSignals_frame =
     \<lparr> trades = [],
       equityCurve =
         [\<lparr> ep_timestamp = 1000, ep_equity = 10000, ep_drawdown = 0, ep_drawdownPercent = 0 \<rparr>],
       positions = [(''m1'', twoSignals_position)],
       equity = 10000, peakEquity = 10000, strat = 1 \<rparr>"

definition capZero_config :: BacktestConfig where
  "capZero_config =
     \<lparr> startDate = 0, endDate = 3000, initialCapital = 10000, maxConcurrentPositions = Some 0,
       cfg_slippage = None, cfg_fees = None \<rparr>"

definition oneSlot_config :: BacktestConfig where
  "oneSlot_config =
     \<lparr> startDate = 0, endDate = 3000, initialCapital = 10000, maxConcurrentPositions = Some 1,
       cfg_slippage = None, cfg_fees = None \<rparr>"

subsection \<open>Scenario C\<close>











section \<open>Predicates of the statements\<close>

text \<open>Every trade of the list carries the round-trip fee of its size.\<close>

definition feesOk :: "BacktestEngine \<Rightarrow> BacktestTrade list \<Rightarrow> bool" where
  "feesOk eng ts = list_all (\<lambda>t. tr_fees t = 2 * fees eng * tr_size t) ts"

text \<open>
  The equity curve of a run in which equity never moves from \<open>c\<close>: one point per tick,
  with no drawdown. As long as no trade is recorded, equity and peak stand at \<open>c\<close> and
  the curve is flat.
\<close>

definition flatCurve :: "real \<Rightarrow> int list \<Rightarrow> EquityPoint list" where
  "flatCurve c ticks =
     map (\<lambda>t. \<lparr> ep_timestamp = t, ep_equity = c, ep_drawdown = 0, ep_drawdownPercent = 0 \<rparr>) ticks"

definition flatWhileNoTrades :: "real \<Rightarrow> 's SimState \<Rightarrow> bool" where
  "flatWhileNoTrades c st =
     (trades st = [] \<longrightarrow>
        equity st = c \<and> peakEquity st = c \<and>
        equityCurve st = flatCurve c (map ep_timestamp (equityCurve st)))"

text \<open>
  The running peak of a sequence of equity values that starts from the peak \<open>pk\<close>: the
  greatest value seen so far, the starting one included. A point is consistent with the
  peak of its moment when its drawdown is the gap to that peak and its percentage is
  the gap over the peak, or 0 under a peak that is not positive. Between two frames the
  peak of the state is the running peak of its curve, and every point of the curve is
  consistent with the peak of its moment.
\<close>

fun runningPeaks :: "real \<Rightarrow> real list \<Rightarrow> real list" where
  "runningPeaks pk [] = []"
| "runningPeaks pk (e # es) = max pk e # runningPeaks (max pk e) es"

definition pointAtPeak :: "EquityPoint \<Rightarrow> real \<Rightarrow> bool" where
  "pointAtPeak p pk =
     (ep_drawdown p = max 0 (pk - ep_equity p) \<and>
      ep_drawdownPercent p = (if pk > 0 then ep_drawdown p / pk else 0))"

definition curveOk :: "real \<Rightarrow> 's SimState \<Rightarrow> bool" where
  "curveOk c0 st =
     (peakEquity st = foldl max c0 (map ep_equity (equityCurve st)) \<and>
      list_all2 pointAtPeak (equityCurve st) (runningPeaks c0 (map ep_equity (equityCurve st))))"

text \<open>
  The open positions respect the cap in force, and no market id occurs twice among
  them. A signal is acceptable when it passes the strategy's validation, its market is
  in the frame and not resolved, and the strategy sizes it at 1 or more.
\<close>

definition capInv :: "BacktestConfig \<Rightarrow> 's SimState \<Rightarrow> bool" where
  "capInv config st =
     (length (positions st) \<le> positionCap config \<and> distinct (map fst (positions st)))"

definition acceptable ::
  "'s IStrategy \<Rightarrow> MarketSnapshot list \<Rightarrow> Signal \<Rightarrow> 's SimState \<Rightarrow> bool" where
  "acceptable strategy cur signal st =
     (case validateSignal strategy (strat st) signal of (isValid, s1) \<Rightarrow>
        isValid \<and>
        (case find (\<lambda>m. snap_id m = sig_marketId signal) cur of
           None \<Rightarrow> False
         | Some market \<Rightarrow>
            \<not> snap_resolved market \<and>
            1 \<le> fst (getPositionSize strategy s1 signal (equity st))))"




section \<open>The numbers at their special values\<close>

lemma special_values:
  "jsdiv (Fin 1) (Fin 0) = PosInf" "jsdiv (Fin (- 1)) (Fin 0) = NegInf" "jsdiv (Fin 0) (Fin 0) = NaN"
  "jsdiv PosInf PosInf = NaN" "jsdiv (Fin 1) PosInf = Fin 0" "jsdiv (Fin 1) NegInf = Fin 0"
  "jsdiv PosInf (Fin (- 1)) = NegInf" "jsdiv NegInf (Fin 2) = NegInf" "jsdiv NaN (Fin 2) = NaN"
  "jsmul PosInf (Fin 0) = NaN" "jsmul NegInf (Fin (- 2)) = PosInf" "jsmul PosInf NegInf = NegInf"
  "jsmul (Fin 2) NegInf = NegInf" "jsmul NaN PosInf = NaN"
  "jsadd PosInf NegInf = NaN" "jsadd PosInf (Fin 1) = PosInf" "jsadd (Fin 1) NegInf = NegInf"
  "jsadd NegInf NegInf = NegInf" "jssub PosInf PosInf = NaN"
  "jslt NegInf PosInf" "\<not> jslt PosInf PosInf" "\<not> jslt NegInf NegInf" "jslt (Fin 1) PosInf"
  "jslt NegInf (Fin 1)" "\<not> jslt NaN (Fin 1)" "\<not> jslt (Fin 1) NaN" "\<not> jslt PosInf (Fin 1)"
  "jssqrt (Fin (- 1)) = NaN" "jssqrt PosInf = PosInf" "jssqrt (Fin 0) = Fin 0"
  by (simp_all add: jssub_def signedInf_def)


section \<open>Properties of the model\<close>

subsection \<open>A property kept by every turn is kept by the loop\<close>

lemma exitLoop_preserves:
  assumes step: "\<And>entry st st'. P st \<Longrightarrow> processExit eng strategy now date cur entry st = Inr st' \<Longrightarrow> P st'"
  shows "P st \<Longrightarrow> exitLoop eng strategy now date cur ps st = Inr st' \<Longrightarrow> P st'"
proof (induction ps arbitrary: st)
  case Nil
  then show ?case by simp
next
  case (Cons entry rest)
  from Cons.prems(2) obtain st1 where
    s1: "processExit eng strategy now date cur entry st = Inr st1" and
    r: "exitLoop eng strategy now date cur rest st1 = Inr st'"
    by (auto split: sum.splits)
  from step [OF Cons.prems(1) s1] have "P st1" .
  from Cons.IH [OF this r] show ?case .
qed

lemma signalLoop_preserves:
  assumes step: "\<And>signal st st'. P st \<Longrightarrow> processSignal eng strategy config date cur signal st = Inr st' \<Longrightarrow> P st'"
  shows "P st \<Longrightarrow> signalLoop eng strategy config date cur sigs st = Inr st' \<Longrightarrow> P st'"
proof (induction sigs arbitrary: st)
  case Nil
  then show ?case by simp
next
  case (Cons signal rest)
  from Cons.prems(2) obtain st1 where
    s1: "processSignal eng strategy config date cur signal st = Inr st1" and
    r: "signalLoop eng strategy config date cur rest st1 = Inr st'"
    by (auto split: sum.splits)
  from step [OF Cons.prems(1) s1] have "P st1" .
  from Cons.IH [OF this r] show ?case .
qed

lemma finalLoop_preserves:
  assumes step: "\<And>entry st st'. P st \<Longrightarrow> processFinal eng marketData config entry st = Inr st' \<Longrightarrow> P st'"
  shows "P st \<Longrightarrow> finalLoop eng marketData config ps st = Inr st' \<Longrightarrow> P st'"
proof (induction ps arbitrary: st)
  case Nil
  then show ?case by simp
next
  case (Cons entry rest)
  from Cons.prems(2) obtain st1 where
    s1: "processFinal eng marketData config entry st = Inr st1" and
    r: "finalLoop eng marketData config rest st1 = Inr st'"
    by (auto split: sum.splits)
  from step [OF Cons.prems(1) s1] have "P st1" .
  from Cons.IH [OF this r] show ?case .
qed

lemma frameStep_preserves:
  assumes ex: "\<And>date cur entry st st'. P st \<Longrightarrow> processExit eng strategy now date cur entry st = Inr st' \<Longrightarrow> P st'"
      and sg: "\<And>date cur signal st st'. P st \<Longrightarrow> processSignal eng strategy config date cur signal st = Inr st' \<Longrightarrow> P st'"
      and gs: "\<And>st s. P st \<Longrightarrow> P (st\<lparr> strat := s \<rparr>)"
      and re: "\<And>date st. P st \<Longrightarrow> P (recordEquity date st)"
  shows "P st \<Longrightarrow> frameStep eng strategy marketData config now t st = Inr st' \<Longrightarrow> P st'"
proof -
  assume p: "P st" and f: "frameStep eng strategy marketData config now t st = Inr st'"
  let ?cur = "currentSnapshots marketData t"
  show "P st'"
  proof (cases "?cur = []")
    case True
    with f p show ?thesis by (simp add: frameStep_def)
  next
    case False
    with f obtain st1 sigs s' st2 where
      e: "exitLoop eng strategy now t ?cur (positions st) st = Inr st1" and
      g: "generateSignals strategy (strat st1) ?cur = (sigs, s')" and
      l: "signalLoop eng strategy config t ?cur sigs (st1\<lparr> strat := s' \<rparr>) = Inr st2" and
      r: "st' = recordEquity t st2"
      by (auto simp: frameStep_def Let_def split: sum.splits prod.splits)
    have "P st1"
    proof (rule exitLoop_preserves [where P = P, OF _ p e])
      show "\<And>entry st st'. P st \<Longrightarrow>
              processExit eng strategy now t ?cur entry st = Inr st' \<Longrightarrow> P st'"
        by (rule ex)
    qed
    then have p1: "P (st1\<lparr> strat := s' \<rparr>)" by (rule gs)
    have "P st2"
    proof (rule signalLoop_preserves [where P = P, OF _ p1 l])
      show "\<And>signal st st'. P st \<Longrightarrow>
              processSignal eng strategy config t ?cur signal st = Inr st' \<Longrightarrow> P st'"
        by (rule sg)
    qed
    then show ?thesis unfolding r by (rule re)
  qed
qed

lemma frameLoop_preserves:
  assumes ex: "\<And>date cur entry st st'. P st \<Longrightarrow> processExit eng strategy now date cur entry st = Inr st' \<Longrightarrow> P st'"
      and sg: "\<And>date cur signal st st'. P st \<Longrightarrow> processSignal eng strategy config date cur signal st = Inr st' \<Longrightarrow> P st'"
      and gs: "\<And>st s. P st \<Longrightarrow> P (st\<lparr> strat := s \<rparr>)"
      and re: "\<And>date st. P st \<Longrightarrow> P (recordEquity date st)"
  shows "P st \<Longrightarrow> frameLoop eng strategy marketData config now ts st = Inr st' \<Longrightarrow> P st'"
proof (induction ts arbitrary: st)
  case Nil
  then show ?case by simp
next
  case (Cons t rest)
  from Cons.prems(2) obtain st1 where
    s1: "frameStep eng strategy marketData config now t st = Inr st1" and
    r: "frameLoop eng strategy marketData config now rest st1 = Inr st'"
    by (auto split: sum.splits)
  have "P st1"
    using frameStep_preserves [where P = P, OF ex sg gs re Cons.prems(1) s1] .
  from Cons.IH [OF this r] show ?case .
qed

subsection \<open>What one turn of each loop does to the state\<close>

lemma processExit_cases:
  assumes "processExit eng strategy now date cur (marketId, position) st = Inr st'"
  shows "st' = st \<or>
         (\<exists>oc. st' = st\<lparr> trades := trades st @ [exitTrade eng date marketId position oc],
                         equity := equity st + tr_pnl (exitTrade eng date marketId position oc),
                         positions := AList.delete marketId (positions st),
                         strat := onSignalExecuted strategy (strat st) (pos_signal position)
                                    (exitResult position (exitTrade eng date marketId position oc) date) \<rparr>)"
  using assms
  by (auto simp: processExit_def Let_def split: option.splits list.splits if_splits)

lemma processSignal_cases:
  assumes "processSignal eng strategy config date cur signal st = Inr st'"
  shows "trades st' = trades st \<and> equity st' = equity st \<and>
         equityCurve st' = equityCurve st \<and> peakEquity st' = peakEquity st \<and>
         (positions st' = positions st \<or>
          (length (positions st) < positionCap config \<and>
           map_of (positions st) (sig_marketId signal) = None \<and>
           (\<exists>p. positions st' = AList.update (sig_marketId signal) p (positions st))))"
  using assms
  by (auto simp: processSignal_def split: if_splits prod.splits option.splits)

lemma processFinal_cases:
  assumes "processFinal eng marketData config (marketId, position) st = Inr st'"
  shows "st' = st \<or>
         (\<exists>oc. st' = st\<lparr> trades := trades st @ [finalTrade eng config marketId position oc] \<rparr>)"
  using assms
  by (auto simp: processFinal_def split: option.splits list.splits)

subsection \<open>Fees of the recorded trades\<close>

lemma rsum_snoc: "rsum (xs @ [x]) = rsum xs + x"
  by (simp add: rsum_def)

lemma rsum_Nil: "rsum [] = 0"
  by (simp add: rsum_def)

lemma exitTrade_fees: "tr_fees (exitTrade eng date marketId position oc) = fees eng * pos_size position * 2"
  and exitTrade_size: "tr_size (exitTrade eng date marketId position oc) = pos_size position"
  by (simp_all add: exitTrade_def Let_def)

lemma finalTrade_fees: "tr_fees (finalTrade eng config marketId position oc) = fees eng * pos_size position * 2"
  and finalTrade_size: "tr_size (finalTrade eng config marketId position oc) = pos_size position"
  by (simp_all add: finalTrade_def Let_def)

lemma feesOk_frameLoop:
  assumes "feesOk eng (trades st)"
      and "frameLoop eng strategy marketData config now ts st = Inr st'"
  shows "feesOk eng (trades st')"
proof (rule frameLoop_preserves [where P = "\<lambda>s. feesOk eng (trades s)", OF _ _ _ _ assms])
  fix date cur entry and st st' :: "'a SimState"
  assume "feesOk eng (trades st)" "processExit eng strategy now date cur entry st = Inr st'"
  then show "feesOk eng (trades st')"
    using processExit_cases [of eng strategy now date cur "fst entry" "snd entry" st st']
    by (auto simp: feesOk_def exitTrade_fees exitTrade_size)
next
  fix date cur signal and st st' :: "'a SimState"
  assume "feesOk eng (trades st)" "processSignal eng strategy config date cur signal st = Inr st'"
  then show "feesOk eng (trades st')"
    using processSignal_cases [of eng strategy config date cur signal st st'] by simp
qed (simp_all add: recordEquity_def Let_def)

lemma feesOk_finalLoop:
  assumes "feesOk eng (trades st)"
      and "finalLoop eng marketData config ps st = Inr st'"
  shows "feesOk eng (trades st')"
proof (rule finalLoop_preserves [where P = "\<lambda>s. feesOk eng (trades s)", OF _ assms])
  fix entry and st st' :: "'a SimState"
  assume "feesOk eng (trades st)" "processFinal eng marketData config entry st = Inr st'"
  then show "feesOk eng (trades st')"
    using processFinal_cases [of eng marketData config "fst entry" "snd entry" st st']
    by (auto simp: feesOk_def finalTrade_fees finalTrade_size)
qed

lemma feesOk_simulate:
  assumes "simulate eng strategy s0 marketData config now = Inr (ts, curve)"
  shows "feesOk eng ts"
proof -
  from assms obtain st1 st2 where
    f: "frameLoop eng strategy marketData config now (sortedTimestamps marketData)
          (initialState config s0) = Inr st1" and
    c: "finalLoop eng marketData config (positions st1) st1 = Inr st2" and
    t: "ts = trades st2"
    by (auto simp: simulate_def simulateState_def split: sum.splits)
  have "feesOk eng (trades (initialState config s0))"
    by (simp add: feesOk_def initialState_def)
  from feesOk_frameLoop [OF this f] have "feesOk eng (trades st1)" .
  from feesOk_finalLoop [OF this c] show ?thesis by (simp add: t)
qed

subsection \<open>Equity inside the frames\<close>

lemma equity_frameLoop:
  assumes "equity st = c0 + rsum (map tr_pnl (trades st))"
      and "frameLoop eng strategy marketData config now ts st = Inr st'"
  shows "equity st' = c0 + rsum (map tr_pnl (trades st'))"
proof (rule frameLoop_preserves [where P = "\<lambda>s. equity s = c0 + rsum (map tr_pnl (trades s))", OF _ _ _ _ assms])
  fix date cur entry and st st' :: "'a SimState"
  assume "equity st = c0 + rsum (map tr_pnl (trades st))" "processExit eng strategy now date cur entry st = Inr st'"
  then show "equity st' = c0 + rsum (map tr_pnl (trades st'))"
    using processExit_cases [of eng strategy now date cur "fst entry" "snd entry" st st']
    by (auto simp: rsum_snoc)
next
  fix date cur signal and st st' :: "'a SimState"
  assume "equity st = c0 + rsum (map tr_pnl (trades st))" "processSignal eng strategy config date cur signal st = Inr st'"
  then show "equity st' = c0 + rsum (map tr_pnl (trades st'))"
    using processSignal_cases [of eng strategy config date cur signal st st'] by simp
qed (simp_all add: recordEquity_def Let_def)

subsection \<open>The concrete runs, evaluated\<close>

lemma scenarioA_simulate:
  "simulate scenarioA_engine (onceStrategy [scenarioA_signal]) 0 scenarioA_data scenarioA_config 5000
     = Inr ([scenarioA_trade], scenarioA_curve)"
  by code_simp

lemma costFree_simulate:
  "simulate costFreeEngine (onceStrategy [scenarioA_signal]) 0 scenarioA_data scenarioA_config 5000
     = Inr ([costFree_trade], costFree_curve)"
  by code_simp

lemma costFree_run:
  "\<exists>r. run costFreeEngine (onceStrategy [scenarioA_signal]) 0 scenarioA_data scenarioA_config 5000 = Inr r \<and>
       map tr_pnl (r_trades r) = [20] \<and>
       sum_totalReturn (r_summary r) = 2 / 1000 \<and>
       sum_winRate (r_summary r) = 1"
  apply (simp add: run_def costFree_simulate)
  apply (simp add: calculateSummary_def Let_def rsum_def costFree_trade_def scenarioA_config_def)
  done

lemma exit_log_example:
  "map_sum id strat
     (processExit scenarioA_engine loggingStrategy 0 2000 [quote ''m1'' 2000 (6 / 10)]
        (''m1'', scenarioA_position) loggingState) = Inr [Win]"
  by code_simp

subsection \<open>Exit test, slippage and entry price\<close>

lemma shouldExitPosition_iff:
  "shouldExitPosition now position price market \<longleftrightarrow>
     (\<exists>sl. truthy (sig_stopLoss (pos_signal position)) = Some sl \<and>
            ((pos_side position = Buy \<and> price \<le> sl) \<or> (pos_side position = Sell \<and> price \<ge> sl))) \<or>
     (\<exists>tp. truthy (sig_takeProfit (pos_signal position)) = Some tp \<and>
            ((pos_side position = Buy \<and> price \<ge> tp) \<or> (pos_side position = Sell \<and> price \<le> tp))) \<or>
     (\<exists>e. sig_expiresAt (pos_signal position) = Some e \<and> now > e)"
  by (auto simp: shouldExitPosition_def Let_def split: option.splits)

lemma applySlippage_worse:
  assumes "0 < slippage eng" "0 < price"
  shows "price < applySlippage eng price Buy" "applySlippage eng price Sell < price"
proof -
  have "0 < price * slippage eng" using assms by simp
  then show "price < applySlippage eng price Buy" "applySlippage eng price Sell < price"
    by (simp_all add: applySlippage_def algebra_simps)
qed

lemma processExit_closes:
  assumes "find (\<lambda>m. snap_id m = marketId) cur = Some market"
      and "snap_outcomes market = oc # ocs"
      and "shouldExitPosition now position (out_price oc) market \<or> snap_resolved market"
  shows "\<exists>st' trade.
           processExit eng strategy now date cur (marketId, position) st = Inr st' \<and>
           trades st' = trades st @ [trade] \<and>
           tr_fees trade = 2 * fees eng * tr_size trade \<and>
           tr_size trade = pos_size position \<and>
           tr_exitPrice trade =
             Some (applySlippage eng (out_price oc) (if pos_side position = Buy then Sell else Buy))"
  using assms
  by (auto simp: processExit_def Let_def exitTrade_def)

lemma processSignal_entry:
  assumes "processSignal eng strategy config date cur signal st = Inr st'"
      and "positions st' \<noteq> positions st"
  shows "\<exists>market reference p.
           find (\<lambda>m. snap_id m = sig_marketId signal) cur = Some market \<and>
           \<not> snap_resolved market \<and>
           map_of (positions st') (sig_marketId signal) = Some p \<and>
           pos_side p = sig_type signal \<and> pos_signal p = signal \<and>
           (if sig_entryPrice signal = None \<or> sig_entryPrice signal = Some 0
            then (\<exists>oc ocs. snap_outcomes market = oc # ocs \<and> reference = out_price oc)
            else sig_entryPrice signal = Some reference) \<and>
           pos_entryPrice p = applySlippage eng reference (sig_type signal)"
proof -
  from assms obtain market reference p where
    m: "find (\<lambda>m. snap_id m = sig_marketId signal) cur = Some market" and
    nr: "\<not> snap_resolved market" and
    r: "entryReference signal market = Some reference" and
    p: "map_of (positions st') (sig_marketId signal) = Some p" and
    f: "pos_side p = sig_type signal" "pos_signal p = signal"
       "pos_entryPrice p = applySlippage eng reference (sig_type signal)"
    by (auto simp: processSignal_def update_conv' split: if_splits prod.splits option.splits)
  have "if sig_entryPrice signal = None \<or> sig_entryPrice signal = Some 0
        then (\<exists>oc ocs. snap_outcomes market = oc # ocs \<and> reference = out_price oc)
        else sig_entryPrice signal = Some reference"
    using r
    by (cases "sig_entryPrice signal")
       (auto simp: entryReference_def split: list.splits if_splits)
  with m nr p f show ?thesis by blast
qed

subsection \<open>Sums and quotients of finite numbers\<close>

lemma foldl_jsadd_Fin: "foldl jsadd (Fin a) (map Fin xs) = Fin (a + sum_list xs)"
  by (induction xs arbitrary: a) (simp_all add: add.assoc)

lemma jssum_Fin: "jssum (map Fin xs) = Fin (sum_list xs)"
  by (simp add: jssum_def foldl_jsadd_Fin)

lemma filter_jslt_Fin: "filter (\<lambda>r. jslt r (Fin rf)) (map Fin rs) = map Fin (filter (\<lambda>r. r < rf) rs)"
  by (induction rs) simp_all

lemma squares_Fin:
  "map (\<lambda>r. jssquare (jssub r (Fin c))) (map Fin rs) = map Fin (map (\<lambda>r. (r - c)\<^sup>2) rs)"
  by (induction rs) (simp_all add: jssquare_def jssub_def power2_eq_square)

lemma jsdiv_count: "0 < n \<Longrightarrow> jsdiv (Fin a) (Fin (real n)) = Fin (a / real n)"
  by simp

lemma shortfall_squares_pos:
  fixes ns :: "real list"
  assumes "ns \<noteq> []" and "\<forall>r \<in> set ns. r < rf"
  shows "0 < sum_list (map (\<lambda>r. (r - rf)\<^sup>2) ns)"
  using assms
proof (induction ns)
  case Nil
  then show ?case by simp
next
  case (Cons r ns)
  have "r - rf \<noteq> 0" using Cons.prems(2) by auto
  then have "0 < (r - rf)\<^sup>2" by simp
  moreover have "0 \<le> sum_list (map (\<lambda>r. (r - rf)\<^sup>2) ns)"
    by (rule sum_list_nonneg) auto
  ultimately show ?case by (simp add: add_pos_nonneg)
qed

lemma sortinoRatio_example:
  "sortinoRatio [Fin (1 / 10), Fin (2 / 10)] (Fin 0) = PosInf"
  by (simp add: sortinoRatio_def)

subsection \<open>Statistics of a flat curve without trades\<close>

lemma map_const_replicate:
  "(\<And>x. x \<in> set xs \<Longrightarrow> f x = k) \<Longrightarrow> map f xs = replicate (length xs) k"
  by (induction xs) simp_all

lemma flatCurve_equity: "map ep_equity (flatCurve c ticks) = replicate (length ticks) c"
  by (simp add: flatCurve_def map_replicate_const comp_def)

lemma flatCurve_length: "length (flatCurve c ticks) = length ticks"
  by (simp add: flatCurve_def)

lemma flatCurve_point: "p \<in> set (flatCurve c ticks) \<Longrightarrow> ep_equity p = c \<and> ep_drawdownPercent p = 0"
  by (auto simp: flatCurve_def)

lemma stepReturns_flat:
  assumes "c \<noteq> 0"
  shows "stepReturns (flatCurve c ticks) = replicate (length ticks - 1) (Fin 0)"
proof -
  have "map (\<lambda>(e, prev). jsdiv (Fin (ep_equity e - ep_equity prev)) (Fin (ep_equity prev)))
          (zip (tl (flatCurve c ticks)) (flatCurve c ticks))
        = replicate (length (zip (tl (flatCurve c ticks)) (flatCurve c ticks))) (Fin 0)"
  proof (rule map_const_replicate)
    fix x assume m: "x \<in> set (zip (tl (flatCurve c ticks)) (flatCurve c ticks))"
    obtain e prev where x: "x = (e, prev)" by (cases x)
    from m x have "e \<in> set (tl (flatCurve c ticks))" by (auto dest: set_zip_leftD)
    then have "e \<in> set (flatCurve c ticks)" by (cases "flatCurve c ticks") auto
    then have e: "ep_equity e = c" by (simp add: flatCurve_point)
    from m x have "prev \<in> set (flatCurve c ticks)" by (auto dest: set_zip_rightD)
    then have p: "ep_equity prev = c" by (simp add: flatCurve_point)
    show "(case x of (e, prev) \<Rightarrow> jsdiv (Fin (ep_equity e - ep_equity prev)) (Fin (ep_equity prev))) = Fin 0"
      using assms by (simp add: x e p)
  qed
  then show ?thesis by (simp add: stepReturns_def flatCurve_length)
qed

lemma foldl_jsadd_zeros: "foldl jsadd (Fin 0) (replicate n (Fin 0)) = Fin 0"
  by (induction n) simp_all

lemma jssum_zeros: "jssum (replicate n (Fin 0)) = Fin 0"
  by (simp add: jssum_def foldl_jsadd_zeros)

lemma foldl_add_zeros: "foldl (+) (0::real) (replicate n 0) = 0"
  by (induction n) simp_all

lemma rsum_zeros: "rsum (replicate n 0) = 0"
  by (simp add: rsum_def foldl_add_zeros)

lemma sharpeRatio_zeros: "sharpeRatio (replicate n (Fin 0)) (Fin 0) = Fin 0"
  by (simp add: sharpeRatio_def Let_def jssum_zeros jssub_def jssquare_def)

lemma sortinoRatio_zeros:
  "sortinoRatio (replicate n (Fin 0)) (Fin 0) = (if n = 0 then Fin 0 else PosInf)"
  by (simp add: sortinoRatio_def Let_def)

lemma maxDrawdownLoop_flat: "maxDrawdownLoop (replicate n c) (c, 0, 0) = (c, 0, 0)"
  by (induction n) simp_all

lemma maxDrawdown_flat: "maxDrawdown (replicate n c) = (0, 0)"
  by (cases n) (simp_all add: maxDrawdownLoop_flat)

lemma maxDurationLoop_flat:
  "maxDurationLoop (flatCurve c ticks) (m, c, d) = (m, c, d)"
  by (induction ticks) (simp_all add: flatCurve_def)

lemma getMaxDrawdownDuration_flat: "getMaxDrawdownDuration (flatCurve c ticks) = 0"
proof (cases ticks)
  case Nil
  then show ?thesis by (simp add: flatCurve_def)
next
  case (Cons t ts)
  have "orDefault (Some c) 0 = c" by simp
  have "getMaxDrawdownDuration (flatCurve c (t # ts)) = fst (maxDurationLoop (flatCurve c (t # ts)) (0, c, t))"
    by (simp add: flatCurve_def)
  then show ?thesis using Cons by (simp only: maxDurationLoop_flat fst_conv)
qed

lemma cagr_flat: "cagr c c years = Fin 0"
  by (simp add: cagr_def jspow_def jssub_def)

lemma profitFactorOf_PosInf: "profitFactorOf gp gl = PosInf \<longleftrightarrow> \<not> 0 < gl"
  by (simp add: profitFactorOf_def)

lemma flatWhileNoTrades_frameLoop:
  assumes "flatWhileNoTrades c st"
      and "frameLoop eng strategy marketData config now ts st = Inr st'"
  shows "flatWhileNoTrades c st'"
proof (rule frameLoop_preserves [where P = "flatWhileNoTrades c", OF _ _ _ _ assms])
  fix date cur entry and st st' :: "'a SimState"
  assume "flatWhileNoTrades c st" "processExit eng strategy now date cur entry st = Inr st'"
  then show "flatWhileNoTrades c st'"
    using processExit_cases [of eng strategy now date cur "fst entry" "snd entry" st st']
    by (auto simp: flatWhileNoTrades_def)
next
  fix date cur signal and st st' :: "'a SimState"
  assume "flatWhileNoTrades c st" "processSignal eng strategy config date cur signal st = Inr st'"
  then show "flatWhileNoTrades c st'"
    using processSignal_cases [of eng strategy config date cur signal st st']
    by (simp add: flatWhileNoTrades_def)
next
  fix st :: "'a SimState" and s
  assume "flatWhileNoTrades c st"
  then show "flatWhileNoTrades c (st\<lparr> strat := s \<rparr>)" by (simp add: flatWhileNoTrades_def)
next
  fix date and st :: "'a SimState"
  assume "flatWhileNoTrades c st"
  then show "flatWhileNoTrades c (recordEquity date st)"
    by (auto simp: flatWhileNoTrades_def recordEquity_def Let_def flatCurve_def)
qed

lemma no_trades_flat_curve:
  assumes "simulate eng strategy s0 marketData config now = Inr ([], curve)"
  shows "curve = flatCurve (initialCapital config) (map ep_timestamp curve)"
proof -
  from assms obtain st1 st2 where
    f: "frameLoop eng strategy marketData config now (sortedTimestamps marketData)
          (initialState config s0) = Inr st1" and
    c: "finalLoop eng marketData config (positions st1) st1 = Inr st2" and
    t: "trades st2 = []" and e: "curve = equityCurve st2"
    by (auto simp: simulate_def simulateState_def split: sum.splits)
  have "flatWhileNoTrades (initialCapital config) (initialState config s0)"
    by (simp add: flatWhileNoTrades_def initialState_def flatCurve_def)
  from flatWhileNoTrades_frameLoop [OF this f]
  have inv: "flatWhileNoTrades (initialCapital config) st1" .
  have "equityCurve st2 = equityCurve st1 \<and> (trades st2 = [] \<longrightarrow> trades st1 = [])"
  proof (rule finalLoop_preserves
      [where P = "\<lambda>s. equityCurve s = equityCurve st1 \<and> (trades s = [] \<longrightarrow> trades st1 = [])",
        OF _ _ c])
    fix entry and st st' :: "'a SimState"
    assume "equityCurve st = equityCurve st1 \<and> (trades st = [] \<longrightarrow> trades st1 = [])"
      "processFinal eng marketData config entry st = Inr st'"
    then show "equityCurve st' = equityCurve st1 \<and> (trades st' = [] \<longrightarrow> trades st1 = [])"
      using processFinal_cases [of eng marketData config "fst entry" "snd entry" st st']
      by auto
  qed simp
  with t have "equityCurve st2 = equityCurve st1" "trades st1 = []" by simp_all
  with inv e show ?thesis by (simp add: flatWhileNoTrades_def)
qed

lemma calculateExposure_no_trades: "calculateExposure [] curve = 0"
  by (simp add: calculateExposure_def Let_def)

lemma summary_no_trades:
  assumes "c \<noteq> 0" and "initialCapital config = c"
  shows "calculateSummary [] (flatCurve c ticks) config =
     \<lparr> sum_totalTrades = 0, sum_winningTrades = 0, sum_losingTrades = 0, sum_winRate = 0,
       sum_totalPnl = 0, sum_totalReturn = 0, sum_maxDrawdown = 0,
       sum_sharpeRatio = Fin 0,
       sum_sortinoRatio = (if length ticks \<le> 1 then Fin 0 else PosInf),
       sum_profitFactor = PosInf,
       sum_averageWin = 0, sum_averageLoss = 0, sum_largestWin = 0, sum_largestLoss = 0,
       sum_averageHoldingPeriod = 0, sum_exposure = 0 \<rparr>"
  using assms
  by (auto simp: calculateSummary_def Let_def rsum_def stepReturns_flat flatCurve_equity
      maxDrawdown_flat sharpeRatio_zeros sortinoRatio_zeros profitFactorOf_def
      holdingPeriodsOf_def List.map_filter_simps calculateExposure_no_trades)

lemma ulcer_flat:
  "jssqrt (jsdiv (Fin (rsum (map (\<lambda>e. (ep_drawdownPercent e * 100)\<^sup>2) (flatCurve c ticks))))
     (Fin (real (length (map (\<lambda>e. (ep_drawdownPercent e * 100)\<^sup>2) (flatCurve c ticks))))))
   = (if ticks = [] then NaN else Fin 0)"
proof -
  have "map (\<lambda>e. (ep_drawdownPercent e * 100)\<^sup>2) (flatCurve c ticks) = replicate (length ticks) 0"
    by (simp add: flatCurve_def map_replicate_const comp_def)
  then show ?thesis by (simp add: rsum_zeros)
qed

lemma volatility_zeros:
  "jsmul (jssqrt (if 0 < length (map (\<lambda>r. jssquare (jssub r (Fin 0))) (replicate n (Fin 0)))
                  then jsdiv (jssum (map (\<lambda>r. jssquare (jssub r (Fin 0))) (replicate n (Fin 0))))
                         (Fin (real (length (map (\<lambda>r. jssquare (jssub r (Fin 0))) (replicate n (Fin 0))))))
                  else Fin 0)) (Fin (sqrt 252)) = Fin 0"
  by (simp add: jssquare_def jssub_def jssum_zeros)

lemma metrics_no_trades:
  assumes "c \<noteq> 0" and "initialCapital config = c"
  shows "calculateMetrics [] (flatCurve c ticks) config =
     \<lparr> met_cagr = Fin 0, met_volatility = Fin 0, met_sharpeRatio = Fin 0,
       met_sortinoRatio = (if length ticks \<le> 1 then Fin 0 else PosInf),
       met_calmarRatio = Fin 0, met_maxDrawdown = 0, met_maxDrawdownDuration = 0,
       met_winRate = 0, met_profitFactor = PosInf, met_expectancy = - 1, met_payoffRatio = 0,
       met_ulcerIndex = (if ticks = [] then NaN else Fin 0) \<rparr>"
proof -
  have endEq: "(if flatCurve c ticks = [] then c
                else orDefault (Some (ep_equity (last (flatCurve c ticks)))) c) = c"
    by (cases "ticks = []") (simp_all add: flatCurve_def last_map)
  have avg: "(if 0 < length (replicate n (Fin 0))
              then jsdiv (jssum (replicate n (Fin 0))) (Fin (real (length (replicate n (Fin 0)))))
              else Fin 0) = Fin 0" for n
    by (simp add: jssum_zeros)
  show ?thesis
    unfolding calculateMetrics_def Let_def stepReturns_flat [OF assms(1)] assms(2) endEq avg
      volatility_zeros ulcer_flat flatCurve_equity maxDrawdown_flat sharpeRatio_zeros
      sortinoRatio_zeros getMaxDrawdownDuration_flat cagr_flat
    by (auto simp: rsum_def profitFactorOf_def)
qed

lemma idle_simulate:
  "simulate defaultEngine (onceStrategy []) 0 scenarioA_data scenarioA_config 0 = Inr ([], idle_curve)"
  by code_simp

lemma idle_run:
  "run defaultEngine (onceStrategy []) 0 scenarioA_data scenarioA_config 0 = Inr idle_result"
  by (simp add: run_def idle_simulate idle_result_def)

text \<open>On a curve without a point the ulcer index divides zero by zero.\<close>

lemma ulcerIndex_empty_curve: "met_ulcerIndex (calculateMetrics ts [] config) = NaN"
  by (simp add: calculateMetrics_def Let_def rsum_def)

subsection \<open>The equity curve\<close>

lemma runningPeaks_snoc:
  "runningPeaks pk (es @ [e]) = runningPeaks pk es @ [max (foldl max pk es) e]"
  by (induction es arbitrary: pk) simp_all

lemma runningPeaks_length: "length (runningPeaks pk es) = length es"
  by (induction es arbitrary: pk) simp_all

lemma runningPeaks_lower: "x \<in> set (runningPeaks pk es) \<Longrightarrow> pk \<le> x"
proof (induction es arbitrary: pk)
  case Nil
  then show ?case by simp
next
  case (Cons e es)
  then show ?case by (fastforce simp: max_def split: if_splits)
qed

lemma runningPeaks_sorted: "sorted (runningPeaks pk es)"
proof (induction es arbitrary: pk)
  case Nil
  then show ?case by simp
next
  case (Cons e es)
  then show ?case by (auto dest: runningPeaks_lower)
qed

lemma exitLoop_curve:
  assumes "exitLoop eng strategy now date cur ps st = Inr st'"
  shows "equityCurve st' = equityCurve st \<and> peakEquity st' = peakEquity st"
proof (rule exitLoop_preserves
    [where P = "\<lambda>s. equityCurve s = equityCurve st \<and> peakEquity s = peakEquity st", OF _ _ assms])
  fix entry and s s' :: "'a SimState"
  assume "equityCurve s = equityCurve st \<and> peakEquity s = peakEquity st"
    "processExit eng strategy now date cur entry s = Inr s'"
  then show "equityCurve s' = equityCurve st \<and> peakEquity s' = peakEquity st"
    using processExit_cases [of eng strategy now date cur "fst entry" "snd entry" s s'] by auto
qed simp

lemma signalLoop_curve:
  assumes "signalLoop eng strategy config date cur sigs st = Inr st'"
  shows "equityCurve st' = equityCurve st \<and> peakEquity st' = peakEquity st \<and> equity st' = equity st
         \<and> trades st' = trades st"
proof (rule signalLoop_preserves
    [where P = "\<lambda>s. equityCurve s = equityCurve st \<and> peakEquity s = peakEquity st \<and>
                     equity s = equity st \<and> trades s = trades st", OF _ _ assms])
  fix signal and s s' :: "'a SimState"
  assume "equityCurve s = equityCurve st \<and> peakEquity s = peakEquity st \<and> equity s = equity st \<and>
          trades s = trades st"
    "processSignal eng strategy config date cur signal s = Inr s'"
  then show "equityCurve s' = equityCurve st \<and> peakEquity s' = peakEquity st \<and> equity s' = equity st \<and>
             trades s' = trades st"
    using processSignal_cases [of eng strategy config date cur signal s s'] by simp
qed simp

lemma frameStep_curve:
  assumes "frameStep eng strategy marketData config now t st = Inr st'"
  shows "if currentSnapshots marketData t = [] then st' = st
         else (\<exists>st2. equityCurve st2 = equityCurve st \<and> peakEquity st2 = peakEquity st \<and>
                     st' = recordEquity t st2)"
proof (cases "currentSnapshots marketData t = []")
  case True
  with assms show ?thesis by (simp add: frameStep_def)
next
  case False
  with assms obtain st1 sigs s' st2 where
    e: "exitLoop eng strategy now t (currentSnapshots marketData t) (positions st) st = Inr st1" and
    l: "signalLoop eng strategy config t (currentSnapshots marketData t) sigs (st1\<lparr> strat := s' \<rparr>) = Inr st2" and
    r: "st' = recordEquity t st2"
    by (auto simp: frameStep_def Let_def split: sum.splits prod.splits)
  from exitLoop_curve [OF e] signalLoop_curve [OF l]
  have "equityCurve st2 = equityCurve st \<and> peakEquity st2 = peakEquity st" by simp
  with r False show ?thesis by auto
qed

lemma recordEquity_curveOk:
  assumes "curveOk c0 st2"
  shows "curveOk c0 (recordEquity t st2)"
proof -
  let ?pk = "max (peakEquity st2) (equity st2)"
  let ?p = "\<lparr> ep_timestamp = t, ep_equity = equity st2, ep_drawdown = ?pk - equity st2,
              ep_drawdownPercent = (if ?pk > 0 then (?pk - equity st2) / ?pk else 0) \<rparr>"
  have r: "recordEquity t st2 = st2\<lparr> peakEquity := ?pk, equityCurve := equityCurve st2 @ [?p] \<rparr>"
    by (simp add: recordEquity_def Let_def)
  have pk: "peakEquity st2 = foldl max c0 (map ep_equity (equityCurve st2))"
    using assms by (simp add: curveOk_def)
  have "pointAtPeak ?p ?pk"
    by (simp add: pointAtPeak_def)
  then show ?thesis
    using assms
    by (simp add: r curveOk_def runningPeaks_snoc pk [symmetric] list_all2_appendI)
qed

lemma frameLoop_curve:
  assumes "frameLoop eng strategy marketData config now ticks st = Inr st'"
      and "curveOk c0 st"
  shows "map ep_timestamp (equityCurve st') =
           map ep_timestamp (equityCurve st) @ filter (\<lambda>t. currentSnapshots marketData t \<noteq> []) ticks
         \<and> curveOk c0 st'"
  using assms
proof (induction ticks arbitrary: st)
  case Nil
  then show ?case by simp
next
  case (Cons t rest)
  from Cons.prems(1) obtain st1 where
    s1: "frameStep eng strategy marketData config now t st = Inr st1" and
    r: "frameLoop eng strategy marketData config now rest st1 = Inr st'"
    by (auto split: sum.splits)
  show ?case
  proof (cases "currentSnapshots marketData t = []")
    case True
    with frameStep_curve [OF s1] have "st1 = st" by simp
    with Cons.IH [OF r] Cons.prems(2) True show ?thesis by simp
  next
    case False
    with frameStep_curve [OF s1] obtain st2 where
      c: "equityCurve st2 = equityCurve st" and p: "peakEquity st2 = peakEquity st" and
      e: "st1 = recordEquity t st2"
      by auto
    have "curveOk c0 st2" using Cons.prems(2) c p by (simp add: curveOk_def)
    then have ok1: "curveOk c0 st1" unfolding e by (rule recordEquity_curveOk)
    have "map ep_timestamp (equityCurve st1) = map ep_timestamp (equityCurve st) @ [t]"
      by (simp add: e recordEquity_def Let_def c)
    with Cons.IH [OF r ok1] False show ?thesis by simp
  qed
qed

lemma finalLoop_curve:
  assumes "finalLoop eng marketData config ps st = Inr st'"
  shows "equityCurve st' = equityCurve st \<and> equity st' = equity st"
proof (rule finalLoop_preserves
    [where P = "\<lambda>s. equityCurve s = equityCurve st \<and> equity s = equity st", OF _ _ assms])
  fix entry and s s' :: "'a SimState"
  assume "equityCurve s = equityCurve st \<and> equity s = equity st"
    "processFinal eng marketData config entry s = Inr s'"
  then show "equityCurve s' = equityCurve st \<and> equity s' = equity st"
    using processFinal_cases [of eng marketData config "fst entry" "snd entry" s s'] by auto
qed simp

lemma currentSnapshots_nonempty:
  assumes "t \<in> set (sortedTimestamps marketData)"
  shows "currentSnapshots marketData t \<noteq> []"
proof -
  from assms obtain kv s where kv: "kv \<in> set marketData" and s: "s \<in> set (snd kv)"
    and t: "snap_timestamp s = t"
    by (auto simp: sortedTimestamps_def)
  then have "find (\<lambda>s. snap_timestamp s = t) (snd kv) \<noteq> None"
    by (auto simp: find_None_iff)
  with kv show ?thesis
    by (auto simp: currentSnapshots_def List.map_filter_def filter_empty_conv)
qed

lemma sortedTimestamps_strict: "sorted_wrt (<) (sortedTimestamps marketData)"
  by (simp add: sortedTimestamps_def strict_sorted_iff)

subsection \<open>The cap on open positions\<close>

lemma length_delete_le: "length (AList.delete k ps) \<le> length ps"
  by (simp add: AList.delete_eq)

lemma length_update_new:
  "k \<notin> fst ` set ps \<Longrightarrow> length (AList.update k v ps) = Suc (length ps)"
  by (induction ps) auto

lemma update_new_append:
  "k \<notin> fst ` set ps \<Longrightarrow> AList.update k v ps = ps @ [(k, v)]"
  by (induction ps) auto

lemma processExit_capInv:
  assumes "capInv config st" and "processExit eng strategy now date cur entry st = Inr st'"
  shows "capInv config st'"
proof -
  have "length (AList.delete k (positions st)) \<le> positionCap config" for k
    using assms(1) length_delete_le [of k "positions st"] by (simp add: capInv_def)
  then show ?thesis
    using assms processExit_cases [of eng strategy now date cur "fst entry" "snd entry" st st']
    by (auto simp: capInv_def distinct_delete)
qed

lemma processSignal_capInv:
  assumes "capInv config st" and "processSignal eng strategy config date cur signal st = Inr st'"
  shows "capInv config st'"
  using assms processSignal_cases [of eng strategy config date cur signal st st']
  by (auto simp: capInv_def distinct_update length_update_new map_of_eq_None_iff)

lemma frameLoop_capInv:
  assumes "capInv config st"
      and "frameLoop eng strategy marketData config now ticks st = Inr st'"
  shows "capInv config st'"
proof (rule frameLoop_preserves [where P = "capInv config", OF _ _ _ _ assms])
  fix date cur entry and st st' :: "'a SimState"
  assume "capInv config st" "processExit eng strategy now date cur entry st = Inr st'"
  then show "capInv config st'" by (rule processExit_capInv)
next
  fix date cur signal and st st' :: "'a SimState"
  assume "capInv config st" "processSignal eng strategy config date cur signal st = Inr st'"
  then show "capInv config st'" by (rule processSignal_capInv)
qed (simp_all add: capInv_def recordEquity_def Let_def)

text \<open>
  Two signals for one market in one frame, while a slot remains and the market holds no
  position: at most one position opens, and when the first signal is acceptable the
  position added is the one of the first signal, which the second neither joins nor
  replaces.
\<close>

lemma processSignal_accepts:
  assumes "processSignal eng strategy config date cur signal st = Inr st'"
      and "length (positions st) < positionCap config"
      and "map_of (positions st) (sig_marketId signal) = None"
      and "acceptable strategy cur signal st"
  shows "\<exists>p. positions st' = AList.update (sig_marketId signal) p (positions st) \<and>
             pos_signal p = signal \<and> pos_side p = sig_type signal"
  using assms
  by (auto simp: processSignal_def acceptable_def Let_def
      split: prod.splits option.splits if_splits sum.splits)

lemma two_signals_one_market:
  assumes same: "sig_marketId sg1 = sig_marketId sg2"
      and free: "map_of (positions st0) (sig_marketId sg1) = None"
      and slot: "length (positions st0) < positionCap config"
      and run: "signalLoop eng strategy config date cur [sg1, sg2] st0 = Inr st1"
  shows "length (positions st1) \<le> Suc (length (positions st0))"
    and "acceptable strategy cur sg1 st0 \<Longrightarrow>
           \<exists>p. positions st1 = positions st0 @ [(sig_marketId sg1, p)] \<and>
               pos_signal p = sg1 \<and> pos_side p = sig_type sg1"
proof -
  from run obtain st' where
    a: "processSignal eng strategy config date cur sg1 st0 = Inr st'" and
    b: "processSignal eng strategy config date cur sg2 st' = Inr st1"
    by (auto split: sum.splits)
  have notin: "sig_marketId sg1 \<notin> fst ` set (positions st0)"
    using free by (simp add: map_of_eq_None_iff)
  note ca = processSignal_cases [OF a]
  note cb = processSignal_cases [OF b]
  have kept: "positions st1 = positions st0 @ [(sig_marketId sg1, p)]"
    if "positions st' = AList.update (sig_marketId sg1) p (positions st0)" for p
  proof -
    from that have "map_of (positions st') (sig_marketId sg2) = Some p"
      by (simp add: same update_conv')
    with cb have "positions st1 = positions st'" by auto
    with that notin show ?thesis by (simp add: update_new_append)
  qed
  show "length (positions st1) \<le> Suc (length (positions st0))"
  proof (cases "positions st' = positions st0")
    case True
    with cb show ?thesis by (auto simp: length_update_new map_of_eq_None_iff)
  next
    case False
    with ca obtain p where "positions st' = AList.update (sig_marketId sg1) p (positions st0)"
      by auto
    from kept [OF this] show ?thesis by simp
  qed
  show "\<exists>p. positions st1 = positions st0 @ [(sig_marketId sg1, p)] \<and>
               pos_signal p = sg1 \<and> pos_side p = sig_type sg1"
    if "acceptable strategy cur sg1 st0"
  proof -
    from processSignal_accepts [OF a slot free that]
    obtain p where p: "positions st' = AList.update (sig_marketId sg1) p (positions st0)"
      "pos_signal p = sg1" "pos_side p = sig_type sg1" by blast
    from kept [OF p(1)] p(2,3) show ?thesis by blast
  qed
qed


lemma twoSignals_frame_run:
  "frameLoop defaultEngine (onceStrategy [open_signal, second_signal]) scenarioA_data oneSlot_config 0
     (take 1 (sortedTimestamps scenarioA_data)) (initialState oneSlot_config 0) = Inr twoSignals_frame"
  by code_simp

lemma twoSignals_loop_run:
  "signalLoop defaultEngine (onceStrategy []) oneSlot_config 1000 [quote ''m1'' 1000 (4 / 10)]
     [open_signal, second_signal] countingState = Inr twoSignals_opened"
  by code_simp

text \<open>
  The cap in force is the configured one, or 10 when none is configured; after any
  number of a run's ticks the open positions are within it, one to a market.
\<close>

lemma positionCap_configured:
  "maxConcurrentPositions config = None \<Longrightarrow> positionCap config = 10"
  "maxConcurrentPositions config = Some n \<Longrightarrow> 0 < n \<Longrightarrow> positionCap config = n"
  by (simp_all add: positionCap_def)

lemma positions_within_cap_in_force:
  assumes "frameLoop eng strategy marketData config now (take k (sortedTimestamps marketData))
             (initialState config s0) = Inr st"
  shows "length (positions st) \<le> positionCap config" "distinct (map fst (positions st))"
proof -
  have "capInv config (initialState config s0)"
    by (simp add: capInv_def initialState_def)
  then have "capInv config st" using assms by (rule frameLoop_capInv)
  then show "length (positions st) \<le> positionCap config" "distinct (map fst (positions st))"
    by (simp_all add: capInv_def)
qed

lemma frameLoop_append:
  "frameLoop eng strategy marketData config now (xs @ ys) st =
     (case frameLoop eng strategy marketData config now xs st of
        Inl e \<Rightarrow> Inl e
      | Inr st' \<Rightarrow> frameLoop eng strategy marketData config now ys st')"
  by (induction xs arbitrary: st) (simp_all split: sum.splits)

subsection \<open>The scan for drawdown periods\<close>





lemma drawdownStep_recovers:
  assumes "inDrawdown s" "currentDrawdown s = Some cd" "peak s < ep_equity r"
  shows "drawdownStep s r =
           s\<lparr> drawdowns := drawdowns s @
                  [cd\<lparr> dd_recovered := True, dd_recoveryDate := Some (ep_timestamp r) \<rparr>],
              currentDrawdown := None, inDrawdown := False,
              peak := ep_equity r, peakDate := ep_timestamp r \<rparr>"
  using assms by (simp add: drawdownStep_def)








section \<open>The claims\<close>

text \<open>
  C1. Scenario A. A backtest set up with zero slippage and zero fees does not run at
  zero cost. The constructor reads each of its options with \<open>||\<close>, so a zero is
  replaced by the default (0.5 percent slippage, 2 percent fees), and the slippage and
  fees of the run's configuration are never read. On the scenario's data (capital
  10000, one market, buy 100 at 0.40, sell at 0.60) the recorded trade's pnl is 15.5 and
  the total return 0.00155; the win rate is 1. (On an engine whose two rates are zero
  the same run gives 20, 0.002 and 1: \<open>costFree_run\<close>.)
\<close>

theorem scenarioA_zero_options_run:
  "scenarioA_engine = newBacktestEngine \<lparr> opt_slippage = Some 0, opt_fees = Some 0 \<rparr> \<and>
   cfg_slippage scenarioA_config = Some 0 \<and> cfg_fees scenarioA_config = Some 0 \<and>
   slippage scenarioA_engine = 5 / 1000 \<and> fees scenarioA_engine = 2 / 100 \<and>
   (\<exists>r. run scenarioA_engine (onceStrategy [scenarioA_signal]) 0 scenarioA_data scenarioA_config 5000 = Inr r \<and>
        map tr_pnl (r_trades r) = [31 / 2] \<and>
        sum_totalReturn (r_summary r) = 31 / 20000 \<and>
        sum_winRate (r_summary r) = 1)"
proof -
  have e: "scenarioA_engine = newBacktestEngine \<lparr> opt_slippage = Some 0, opt_fees = Some 0 \<rparr> \<and>
           cfg_slippage scenarioA_config = Some 0 \<and> cfg_fees scenarioA_config = Some 0 \<and>
           slippage scenarioA_engine = 5 / 1000 \<and> fees scenarioA_engine = 2 / 100"
    by (simp add: scenarioA_engine_def newBacktestEngine_def scenarioA_config_def)
  have "\<exists>r. run scenarioA_engine (onceStrategy [scenarioA_signal]) 0 scenarioA_data scenarioA_config 5000 = Inr r \<and>
        map tr_pnl (r_trades r) = [31 / 2] \<and>
        sum_totalReturn (r_summary r) = 31 / 20000 \<and>
        sum_winRate (r_summary r) = 1"
    apply (simp add: run_def scenarioA_simulate)
    apply (simp add: calculateSummary_def Let_def rsum_def scenarioA_trade_def scenarioA_config_def)
    done
  with e show ?thesis by blast
qed

text \<open>
  C2, as amended. The reported profit factor is \<open>Infinity\<close> exactly when the gross loss
  is 0, whatever the gross profit, so also when there is no trade at all. A run that
  records no trade, on a non-zero capital, returns these figures: every count, rate,
  total, average and extreme of the trades is 0, the expectancy is -1, maximum
  drawdown, its duration, Sharpe ratio, CAGR, Calmar ratio and volatility are 0; the
  profit factor is \<open>Infinity\<close>; the Sortino ratio is 0 on a curve of at most one point
  and \<open>Infinity\<close> on a longer one; the ulcer index is 0 on a curve that has a point.
  Nothing is raised: a division by zero that is not guarded yields a number.
\<close>

theorem profitFactor_and_no_trades:
  "(sum_profitFactor (calculateSummary ts curve config) = PosInf \<longleftrightarrow>
      \<bar>rsum (map tr_pnl (filter (\<lambda>t. tr_pnl t < 0) ts))\<bar> = 0) \<and>
   (met_profitFactor (calculateMetrics ts curve config) = PosInf \<longleftrightarrow>
      \<bar>rsum (map tr_pnl (filter (\<lambda>t. tr_pnl t < 0) ts))\<bar> = 0) \<and>
   (run eng strategy s0 marketData cfg now = Inr r \<and> r_trades r = [] \<and> initialCapital cfg \<noteq> 0 \<longrightarrow>
      r_summary r =
        \<lparr> sum_totalTrades = 0, sum_winningTrades = 0, sum_losingTrades = 0, sum_winRate = 0,
          sum_totalPnl = 0, sum_totalReturn = 0, sum_maxDrawdown = 0,
          sum_sharpeRatio = Fin 0,
          sum_sortinoRatio = (if length (r_equityCurve r) \<le> 1 then Fin 0 else PosInf),
          sum_profitFactor = PosInf,
          sum_averageWin = 0, sum_averageLoss = 0, sum_largestWin = 0, sum_largestLoss = 0,
          sum_averageHoldingPeriod = 0, sum_exposure = 0 \<rparr> \<and>
      met_cagr (r_metrics r) = Fin 0 \<and>
      met_volatility (r_metrics r) = Fin 0 \<and>
      met_sharpeRatio (r_metrics r) = Fin 0 \<and>
      met_sortinoRatio (r_metrics r) = (if length (r_equityCurve r) \<le> 1 then Fin 0 else PosInf) \<and>
      met_calmarRatio (r_metrics r) = Fin 0 \<and>
      met_maxDrawdown (r_metrics r) = 0 \<and>
      met_maxDrawdownDuration (r_metrics r) = 0 \<and>
      met_winRate (r_metrics r) = 0 \<and>
      met_profitFactor (r_metrics r) = PosInf \<and>
      met_expectancy (r_metrics r) = - 1 \<and>
      met_payoffRatio (r_metrics r) = 0 \<and>
      (r_equityCurve r \<noteq> [] \<longrightarrow> met_ulcerIndex (r_metrics r) = Fin 0))"
proof -
  have pf1: "sum_profitFactor (calculateSummary ts curve config) = PosInf \<longleftrightarrow>
      \<bar>rsum (map tr_pnl (filter (\<lambda>t. tr_pnl t < 0) ts))\<bar> = 0"
    by (simp add: calculateSummary_def Let_def profitFactorOf_PosInf)
  have pf2: "met_profitFactor (calculateMetrics ts curve config) = PosInf \<longleftrightarrow>
      \<bar>rsum (map tr_pnl (filter (\<lambda>t. tr_pnl t < 0) ts))\<bar> = 0"
    by (simp add: calculateMetrics_def Let_def profitFactorOf_PosInf)
  have idle: "r_summary r =
        \<lparr> sum_totalTrades = 0, sum_winningTrades = 0, sum_losingTrades = 0, sum_winRate = 0,
          sum_totalPnl = 0, sum_totalReturn = 0, sum_maxDrawdown = 0,
          sum_sharpeRatio = Fin 0,
          sum_sortinoRatio = (if length (r_equityCurve r) \<le> 1 then Fin 0 else PosInf),
          sum_profitFactor = PosInf,
          sum_averageWin = 0, sum_averageLoss = 0, sum_largestWin = 0, sum_largestLoss = 0,
          sum_averageHoldingPeriod = 0, sum_exposure = 0 \<rparr> \<and>
      met_cagr (r_metrics r) = Fin 0 \<and>
      met_volatility (r_metrics r) = Fin 0 \<and>
      met_sharpeRatio (r_metrics r) = Fin 0 \<and>
      met_sortinoRatio (r_metrics r) = (if length (r_equityCurve r) \<le> 1 then Fin 0 else PosInf) \<and>
      met_calmarRatio (r_metrics r) = Fin 0 \<and>
      met_maxDrawdown (r_metrics r) = 0 \<and>
      met_maxDrawdownDuration (r_metrics r) = 0 \<and>
      met_winRate (r_metrics r) = 0 \<and>
      met_profitFactor (r_metrics r) = PosInf \<and>
      met_expectancy (r_metrics r) = - 1 \<and>
      met_payoffRatio (r_metrics r) = 0 \<and>
      (r_equityCurve r \<noteq> [] \<longrightarrow> met_ulcerIndex (r_metrics r) = Fin 0)"
    if a: "run eng strategy s0 marketData cfg now = Inr r \<and> r_trades r = [] \<and> initialCapital cfg \<noteq> 0"
  proof -
    from a obtain curve where
      s: "simulate eng strategy s0 marketData cfg now = Inr ([], curve)" and
      rs: "r_summary r = calculateSummary [] curve cfg" and
      rm: "r_metrics r = calculateMetrics [] curve cfg" and
      rc: "r_equityCurve r = curve"
      by (auto simp: run_def split: sum.splits prod.splits)
    let ?c = "initialCapital cfg"
    let ?ticks = "map ep_timestamp curve"
    have flat: "curve = flatCurve ?c ?ticks"
      using s by (rule no_trades_flat_curve)
    have c: "?c \<noteq> 0" using a by simp
    have n: "length ?ticks = length (r_equityCurve r)" by (simp add: rc)
    have e: "(?ticks = []) = (r_equityCurve r = [])" by (simp add: rc)
    have su: "r_summary r = calculateSummary [] (flatCurve ?c ?ticks) cfg"
      using rs flat by simp
    have me: "r_metrics r = calculateMetrics [] (flatCurve ?c ?ticks) cfg"
      using rm flat by simp
    show ?thesis
      unfolding su me summary_no_trades [OF c refl] metrics_no_trades [OF c refl] n e
      by simp
  qed
  from pf1 pf2 idle show ?thesis by blast
qed

theorem profitFactor_and_no_trades_witness:
  "run defaultEngine (onceStrategy []) 0 scenarioA_data scenarioA_config 0 = Inr idle_result \<and>
   r_trades idle_result = [] \<and> initialCapital scenarioA_config \<noteq> 0 \<and>
   r_equityCurve idle_result \<noteq> [] \<and>
   r_summary idle_result =
        \<lparr> sum_totalTrades = 0, sum_winningTrades = 0, sum_losingTrades = 0, sum_winRate = 0,
          sum_totalPnl = 0, sum_totalReturn = 0, sum_maxDrawdown = 0,
          sum_sharpeRatio = Fin 0, sum_sortinoRatio = PosInf, sum_profitFactor = PosInf,
          sum_averageWin = 0, sum_averageLoss = 0, sum_largestWin = 0, sum_largestLoss = 0,
          sum_averageHoldingPeriod = 0, sum_exposure = 0 \<rparr> \<and>
   met_cagr (r_metrics idle_result) = Fin 0 \<and>
   met_volatility (r_metrics idle_result) = Fin 0 \<and>
   met_sharpeRatio (r_metrics idle_result) = Fin 0 \<and>
   met_sortinoRatio (r_metrics idle_result) = PosInf \<and>
   met_calmarRatio (r_metrics idle_result) = Fin 0 \<and>
   met_maxDrawdown (r_metrics idle_result) = 0 \<and>
   met_maxDrawdownDuration (r_metrics idle_result) = 0 \<and>
   met_winRate (r_metrics idle_result) = 0 \<and>
   met_profitFactor (r_metrics idle_result) = PosInf \<and>
   met_expectancy (r_metrics idle_result) = - 1 \<and>
   met_payoffRatio (r_metrics idle_result) = 0 \<and>
   met_ulcerIndex (r_metrics idle_result) = Fin 0"
proof -
  have h: "run defaultEngine (onceStrategy []) 0 scenarioA_data scenarioA_config 0 = Inr idle_result \<and>
           r_trades idle_result = [] \<and> initialCapital scenarioA_config \<noteq> 0"
    by (simp add: idle_run) (simp add: idle_result_def scenarioA_config_def)
  have n: "length (r_equityCurve idle_result) = 2"
    by (simp add: idle_result_def idle_curve_def)
  have ne: "r_equityCurve idle_result \<noteq> []"
    by (simp add: idle_result_def idle_curve_def)
  note inst = profitFactor_and_no_trades [of "[]" "[]" scenarioA_config defaultEngine "onceStrategy []" 0
      scenarioA_data scenarioA_config 0 idle_result]
  from inst h n ne show ?thesis by simp
qed

text \<open>
  C2 as stated fails on the empty trade list: gross profit and gross loss are both 0,
  and the profit factor is \<open>Infinity\<close>, and on the two-point curve of a run without
  trades so is the Sortino ratio.
\<close>

theorem no_trades_not_finite:
  "rsum (map tr_pnl (filter (\<lambda>t. 0 < tr_pnl t) [])) = 0 \<and>
   \<bar>rsum (map tr_pnl (filter (\<lambda>t. tr_pnl t < 0) []))\<bar> = 0 \<and>
   sum_profitFactor (calculateSummary [] idle_curve scenarioA_config) = PosInf \<and>
   \<not> isFinite (sum_profitFactor (calculateSummary [] idle_curve scenarioA_config)) \<and>
   \<not> isFinite (sum_sortinoRatio (calculateSummary [] idle_curve scenarioA_config))"
  by (simp add: rsum_def calculateSummary_def Let_def profitFactorOf_def stepReturns_def
      idle_curve_def sortinoRatio_def)

text \<open>
  C3. The exit test. A position whose market is in the frame is closed when its stop is
  breached, its target is breached, its signal has expired, or the market is resolved
  (\<open>shouldExitPosition_iff\<close>); but expiry is tested against the wall clock at the
  moment of the run, not against the frame's timestamp. A signal expiring at 10000, held
  over ticks at 1000, 2000 and 3000, is closed at tick 2000 when the run happens at wall
  clock 99999, and stays open to the end of the data when it happens at wall clock 0.
\<close>

theorem expiry_read_from_wall_clock:
  "sig_expiresAt (pos_signal expiring_position) = Some 10000 \<and>
   shouldExitPosition 99999 expiring_position (41 / 100) (quote ''m1'' 2000 (41 / 100)) \<and>
   \<not> shouldExitPosition 0 expiring_position (41 / 100) (quote ''m1'' 2000 (41 / 100)) \<and>
   map_sum id (\<lambda>(ts, curve). map tr_exitTime ts)
     (simulate defaultEngine (onceStrategy [expiring_signal]) 0 expiring_data scenarioA_config 99999)
     = Inr [Some 2000] \<and>
   map_sum id (\<lambda>(ts, curve). map tr_exitTime ts)
     (simulate defaultEngine (onceStrategy [expiring_signal]) 0 expiring_data scenarioA_config 0)
     = Inr [Some 3000]"
  by code_simp

text \<open>
  C4, as amended. Every trade a simulation records carries the fee \<open>2 * fees * size\<close>.
  When a frame closes a position, because its exit test holds or its market is
  resolved, the trade is recorded with that fee and its exit price is the price of the
  first outcome of the frame's snapshot of the market, with slippage in the closing
  direction; for a positive slippage fraction and a positive observed price a long exit
  receives strictly less than the observed price and a short exit pays strictly more.
  When a signal opens a position, its entry price is the reference price with slippage
  in the direction of the signal, where the reference is the signal's own entry price
  when it carries a non-zero one and the price of the first outcome of the frame's
  snapshot otherwise; for a positive slippage fraction and a positive reference a long
  entry pays strictly more than the reference and a short entry receives strictly less.
\<close>

theorem fees_and_slippage:
  "(simulate eng strategy s0 marketData config now = Inr (ts, curve) \<longrightarrow> feesOk eng ts) \<and>
   (find (\<lambda>m. snap_id m = marketId) cur = Some market \<and>
    snap_outcomes market = oc # ocs \<and>
    (shouldExitPosition now2 position (out_price oc) market \<or> snap_resolved market) \<longrightarrow>
      (\<exists>st' trade x.
         processExit eng strategy2 now2 date cur (marketId, position) st = Inr st' \<and>
         trades st' = trades st @ [trade] \<and>
         tr_fees trade = 2 * fees eng * tr_size trade \<and>
         tr_exitPrice trade = Some x \<and>
         x = applySlippage eng (out_price oc) (if pos_side position = Buy then Sell else Buy) \<and>
         (0 < slippage eng \<and> 0 < out_price oc \<longrightarrow>
            (if pos_side position = Buy then x < out_price oc else out_price oc < x)))) \<and>
   (processSignal eng strategy3 config3 date3 cur3 signal st3 = Inr st3' \<and>
    positions st3' \<noteq> positions st3 \<longrightarrow>
      (\<exists>market3 reference p.
         find (\<lambda>m. snap_id m = sig_marketId signal) cur3 = Some market3 \<and>
         map_of (positions st3') (sig_marketId signal) = Some p \<and>
         pos_side p = sig_type signal \<and> pos_signal p = signal \<and>
         (if sig_entryPrice signal = None \<or> sig_entryPrice signal = Some 0
          then (\<exists>oc3 ocs3. snap_outcomes market3 = oc3 # ocs3 \<and> reference = out_price oc3)
          else sig_entryPrice signal = Some reference) \<and>
         pos_entryPrice p = applySlippage eng reference (sig_type signal) \<and>
         (0 < slippage eng \<and> 0 < reference \<longrightarrow>
            (if sig_type signal = Buy then reference < pos_entryPrice p
             else pos_entryPrice p < reference))))"
proof (intro conjI impI)
  assume "simulate eng strategy s0 marketData config now = Inr (ts, curve)"
  then show "feesOk eng ts" by (rule feesOk_simulate)
next
  assume h: "find (\<lambda>m. snap_id m = marketId) cur = Some market \<and>
    snap_outcomes market = oc # ocs \<and>
    (shouldExitPosition now2 position (out_price oc) market \<or> snap_resolved market)"
  let ?x = "applySlippage eng (out_price oc) (if pos_side position = Buy then Sell else Buy)"
  from h obtain st' trade where
    e: "processExit eng strategy2 now2 date cur (marketId, position) st = Inr st'"
       "trades st' = trades st @ [trade]"
       "tr_fees trade = 2 * fees eng * tr_size trade"
       "tr_exitPrice trade = Some ?x"
    using processExit_closes [of marketId cur market oc ocs now2 position eng strategy2 date st]
    by blast
  have w: "0 < slippage eng \<and> 0 < out_price oc \<longrightarrow>
            (if pos_side position = Buy then ?x < out_price oc else out_price oc < ?x)"
    using applySlippage_worse [of eng "out_price oc"] by (cases "pos_side position") auto
  from e w
  show "\<exists>st' trade x.
         processExit eng strategy2 now2 date cur (marketId, position) st = Inr st' \<and>
         trades st' = trades st @ [trade] \<and>
         tr_fees trade = 2 * fees eng * tr_size trade \<and>
         tr_exitPrice trade = Some x \<and>
         x = applySlippage eng (out_price oc) (if pos_side position = Buy then Sell else Buy) \<and>
         (0 < slippage eng \<and> 0 < out_price oc \<longrightarrow>
            (if pos_side position = Buy then x < out_price oc else out_price oc < x))"
    by blast
next
  assume h: "processSignal eng strategy3 config3 date3 cur3 signal st3 = Inr st3' \<and>
    positions st3' \<noteq> positions st3"
  then obtain market3 reference p where
    m: "find (\<lambda>m. snap_id m = sig_marketId signal) cur3 = Some market3"
       "map_of (positions st3') (sig_marketId signal) = Some p"
       "pos_side p = sig_type signal" "pos_signal p = signal"
       "if sig_entryPrice signal = None \<or> sig_entryPrice signal = Some 0
        then (\<exists>oc3 ocs3. snap_outcomes market3 = oc3 # ocs3 \<and> reference = out_price oc3)
        else sig_entryPrice signal = Some reference" and
    ep: "pos_entryPrice p = applySlippage eng reference (sig_type signal)"
    using processSignal_entry [of eng strategy3 config3 date3 cur3 signal st3 st3'] by blast
  have w: "0 < slippage eng \<and> 0 < reference \<longrightarrow>
            (if sig_type signal = Buy then reference < pos_entryPrice p
             else pos_entryPrice p < reference)"
  proof (intro impI)
    assume "0 < slippage eng \<and> 0 < reference"
    then have "0 < reference * slippage eng" by simp
    then show "if sig_type signal = Buy then reference < pos_entryPrice p
               else pos_entryPrice p < reference"
      by (simp add: ep applySlippage_def algebra_simps)
  qed
  from m ep w
  show "\<exists>market3 reference p.
         find (\<lambda>m. snap_id m = sig_marketId signal) cur3 = Some market3 \<and>
         map_of (positions st3') (sig_marketId signal) = Some p \<and>
         pos_side p = sig_type signal \<and> pos_signal p = signal \<and>
         (if sig_entryPrice signal = None \<or> sig_entryPrice signal = Some 0
          then (\<exists>oc3 ocs3. snap_outcomes market3 = oc3 # ocs3 \<and> reference = out_price oc3)
          else sig_entryPrice signal = Some reference) \<and>
         pos_entryPrice p = applySlippage eng reference (sig_type signal) \<and>
         (0 < slippage eng \<and> 0 < reference \<longrightarrow>
            (if sig_type signal = Buy then reference < pos_entryPrice p
             else pos_entryPrice p < reference))"
    by blast
qed

theorem fees_and_slippage_witness:
  "simulate scenarioA_engine (onceStrategy [scenarioA_signal]) 0 scenarioA_data scenarioA_config 5000 =
     Inr ([scenarioA_trade], scenarioA_curve) \<and>
   feesOk scenarioA_engine [scenarioA_trade] \<and>
   0 < slippage scenarioA_engine \<and>
   find (\<lambda>m. snap_id m = ''m1'') [quote ''m1'' 2000 (6 / 10)] = Some (quote ''m1'' 2000 (6 / 10)) \<and>
   map out_price (snap_outcomes (quote ''m1'' 2000 (6 / 10))) = [6 / 10] \<and>
   shouldExitPosition 5000 scenarioA_position (6 / 10) (quote ''m1'' 2000 (6 / 10)) \<and>
   pos_side scenarioA_position = Buy \<and>
   (\<exists>st' trade x.
      processExit scenarioA_engine (onceStrategy []) 5000 2000 [quote ''m1'' 2000 (6 / 10)]
        (''m1'', scenarioA_position) countingState = Inr st' \<and>
      trades st' = trades countingState @ [trade] \<and>
      tr_fees trade = 2 * fees scenarioA_engine * tr_size trade \<and>
      tr_exitPrice trade = Some x \<and> x < 6 / 10) \<and>
   processSignal scenarioA_engine (onceStrategy []) scenarioA_config 1000 [quote ''m1'' 1000 (4 / 10)]
     scenarioA_signal countingState = Inr (countingState\<lparr> positions := [(''m1'', scenarioA_position)] \<rparr>) \<and>
   sig_type scenarioA_signal = Buy \<and> sig_entryPrice scenarioA_signal = None \<and>
   (\<exists>p. map_of [(''m1'', scenarioA_position)] ''m1'' = Some p \<and>
        pos_signal p = scenarioA_signal \<and> 4 / 10 < pos_entryPrice p)"
proof -
  let ?q = "quote ''m1'' 2000 (6 / 10)"
  let ?oc = "\<lparr> out_id = ''yes'', out_price = 6 / 10 \<rparr>"
  let ?st' = "countingState\<lparr> positions := [(''m1'', scenarioA_position)] \<rparr>"
  have sim: "simulate scenarioA_engine (onceStrategy [scenarioA_signal]) 0 scenarioA_data
               scenarioA_config 5000 = Inr ([scenarioA_trade], scenarioA_curve)"
    by (rule scenarioA_simulate)
  have rate: "0 < slippage scenarioA_engine"
    by (simp add: scenarioA_engine_def newBacktestEngine_def)
  have found: "find (\<lambda>m. snap_id m = ''m1'') [?q] = Some ?q" "snap_outcomes ?q = [?oc]"
    by (simp_all add: quote_def)
  have exit: "shouldExitPosition 5000 scenarioA_position (6 / 10) ?q"
    by code_simp
  have side: "pos_side scenarioA_position = Buy" "sig_type scenarioA_signal = Buy"
    "sig_entryPrice scenarioA_signal = None" "sig_marketId scenarioA_signal = ''m1''"
    by (simp_all add: scenarioA_position_def scenarioA_signal_def)
  have opened: "processSignal scenarioA_engine (onceStrategy []) scenarioA_config 1000
                  [quote ''m1'' 1000 (4 / 10)] scenarioA_signal countingState = Inr ?st'"
    by code_simp
  have changed: "positions ?st' \<noteq> positions countingState"
    by (simp add: countingState_def initialState_def)
  note inst = fees_and_slippage [of scenarioA_engine "onceStrategy [scenarioA_signal]" 0 scenarioA_data
      scenarioA_config 5000 "[scenarioA_trade]" scenarioA_curve "''m1''" "[?q]" ?q
      ?oc "[]" 5000 scenarioA_position "onceStrategy []" 2000 countingState
      "onceStrategy []" scenarioA_config 1000 "[quote ''m1'' 1000 (4 / 10)]" scenarioA_signal
      countingState ?st']
  from inst sim have fees: "feesOk scenarioA_engine [scenarioA_trade]" by blast
  from inst found exit rate side(1)
  have closed: "\<exists>st' trade x.
      processExit scenarioA_engine (onceStrategy []) 5000 2000 [?q]
        (''m1'', scenarioA_position) countingState = Inr st' \<and>
      trades st' = trades countingState @ [trade] \<and>
      tr_fees trade = 2 * fees scenarioA_engine * tr_size trade \<and>
      tr_exitPrice trade = Some x \<and> x < 6 / 10"
    by auto
  from inst opened changed rate side
  have entered: "\<exists>p. map_of [(''m1'', scenarioA_position)] ''m1'' = Some p \<and>
        pos_signal p = scenarioA_signal \<and> 4 / 10 < pos_entryPrice p"
    by (auto simp: quote_def)
  from sim fees rate found exit side opened closed entered show ?thesis by simp
qed

text \<open>
  C4 as stated fails in both of its parts about the observed price. A long position
  whose market is resolved against it is closed at the observed price of 0 itself, not
  below it. A buy signal that names an entry price of 0.30 is filled from that price,
  at 0.3015, while the market is observed at 0.50: the long entry pays less than the
  observed price.
\<close>

theorem slippage_not_against_observed_price:
  "0 < slippage defaultEngine \<and>
   pos_side expiring_position = Buy \<and>
   find (\<lambda>m. snap_id m = ''m1'') [lostQuote] = Some lostQuote \<and>
   map out_price (snap_outcomes lostQuote) = [0] \<and>
   map_sum id (\<lambda>st. map tr_exitPrice (trades st))
     (processExit defaultEngine (onceStrategy []) 0 2000 [lostQuote] (''m1'', expiring_position)
        countingState) = Inr [Some 0] \<and>
   sig_type limit_signal = Buy \<and>
   map out_price (snap_outcomes (quote ''m1'' 1000 (5 / 10))) = [5 / 10] \<and>
   map_sum id (\<lambda>st. map (\<lambda>kv. pos_entryPrice (snd kv)) (positions st))
     (processSignal defaultEngine (onceStrategy []) scenarioA_config 1000 [quote ''m1'' 1000 (5 / 10)]
        limit_signal countingState) = Inr [603 / 2000] \<and>
   (603 / 2000 :: real) < 5 / 10"
  by code_simp

text \<open>
  C5. The claim fails on a run configured with a cap of zero concurrent positions: the
  engine reads the cap as \<open>maxConcurrentPositions || 10\<close>, the zero is taken for a
  missing value and the cap in force is 10, so the signal of the first tick opens a
  position and the frame ends with one open position under a configured cap of 0.
\<close>

theorem cap_zero_opens_position:
  "maxConcurrentPositions capZero_config = Some 0 \<and>
   positionCap capZero_config = 10 \<and>
   map_sum id
     (\<lambda>st. map (\<lambda>kv. (fst kv, pos_side (snd kv), sig_id (pos_signal (snd kv)))) (positions st))
     (frameLoop defaultEngine (onceStrategy [open_signal]) scenarioA_data capZero_config 0
        (take 1 (sortedTimestamps scenarioA_data)) (initialState capZero_config 0))
     = Inr [(''m1'', Buy, ''s3'')]"
  by code_simp

text \<open>
  C6. The equity curve of a run has one point for every tick that has a market, in the
  order of the sorted distinct timestamps, and no tick is without a market; its
  timestamps increase strictly. The running peak, which starts at the initial capital,
  never decreases along the curve, and every point's drawdown is
  \<open>max 0 (peak - equity)\<close> for the peak of its moment, its percentage that drawdown
  over the peak when the peak is positive and 0 otherwise.
\<close>

theorem equity_curve_shape:
  assumes "simulate eng strategy s0 marketData config now = Inr (ts, curve)"
  shows "map ep_timestamp curve =
           filter (\<lambda>t. currentSnapshots marketData t \<noteq> []) (sortedTimestamps marketData) \<and>
         map ep_timestamp curve = sortedTimestamps marketData \<and>
         sorted_wrt (<) (map ep_timestamp curve) \<and>
         sorted (runningPeaks (initialCapital config) (map ep_equity curve)) \<and>
         list_all2 pointAtPeak curve (runningPeaks (initialCapital config) (map ep_equity curve))"
proof -
  from assms obtain st1 st2 where
    f: "frameLoop eng strategy marketData config now (sortedTimestamps marketData)
          (initialState config s0) = Inr st1" and
    c: "finalLoop eng marketData config (positions st1) st1 = Inr st2" and
    e: "curve = equityCurve st2"
    by (auto simp: simulate_def simulateState_def split: sum.splits)
  have "curveOk (initialCapital config) (initialState config s0)"
    by (simp add: curveOk_def initialState_def)
  from frameLoop_curve [OF f this]
  have tm: "map ep_timestamp (equityCurve st1) =
              filter (\<lambda>t. currentSnapshots marketData t \<noteq> []) (sortedTimestamps marketData)"
    and ok: "curveOk (initialCapital config) st1"
    by (simp_all add: initialState_def)
  have same: "curve = equityCurve st1" using finalLoop_curve [OF c] e by simp
  have all: "filter (\<lambda>t. currentSnapshots marketData t \<noteq> []) (sortedTimestamps marketData)
             = sortedTimestamps marketData"
    by (simp add: currentSnapshots_nonempty)
  show ?thesis
    using tm ok all sortedTimestamps_strict [of marketData]
    by (simp add: same curveOk_def runningPeaks_sorted)
qed

theorem equity_curve_shape_witness:
  "simulate scenarioA_engine (onceStrategy [scenarioA_signal]) 0 scenarioA_data scenarioA_config 5000
     = Inr ([scenarioA_trade], scenarioA_curve) \<and>
   (map ep_timestamp scenarioA_curve =
      filter (\<lambda>t. currentSnapshots scenarioA_data t \<noteq> []) (sortedTimestamps scenarioA_data) \<and>
    map ep_timestamp scenarioA_curve = sortedTimestamps scenarioA_data \<and>
    sorted_wrt (<) (map ep_timestamp scenarioA_curve) \<and>
    sorted (runningPeaks (initialCapital scenarioA_config) (map ep_equity scenarioA_curve)) \<and>
    list_all2 pointAtPeak scenarioA_curve
      (runningPeaks (initialCapital scenarioA_config) (map ep_equity scenarioA_curve)))"
  using scenarioA_simulate equity_curve_shape [OF scenarioA_simulate] by (rule conjI)




text \<open>
  C8, as amended. On finite returns the Sortino ratio is 0 for an empty list; for a
  non-empty list with no return below the risk-free threshold it is the number
  \<open>Infinity\<close> itself, returned as an ordinary number, and nothing is raised; otherwise
  it is the mean excess return over the square root of the mean squared shortfall of
  the returns below the threshold, and of those only.
\<close>

theorem sortinoRatio_finite_returns:
  "sortinoRatio (map Fin rs) (Fin rf) =
     (if rs = [] then Fin 0
      else if filter (\<lambda>r. r < rf) rs = [] then PosInf
      else Fin ((sum_list rs / real (length rs) - rf) /
                sqrt (sum_list (map (\<lambda>r. (r - rf)\<^sup>2) (filter (\<lambda>r. r < rf) rs)) /
                      real (length (filter (\<lambda>r. r < rf) rs)))))"
proof (cases "rs = []")
  case True
  then show ?thesis by (simp add: sortinoRatio_def)
next
  case False
  let ?ns = "filter (\<lambda>r. r < rf) rs"
  show ?thesis
  proof (cases "?ns = []")
    case True
    with False show ?thesis
      by (simp add: sortinoRatio_def Let_def filter_jslt_Fin)
  next
    case ne: False
    let ?v = "sum_list (map (\<lambda>r. (r - rf)\<^sup>2) ?ns) / real (length ?ns)"
    have "0 < sum_list (map (\<lambda>r. (r - rf)\<^sup>2) ?ns)"
      by (rule shortfall_squares_pos [OF ne]) simp
    moreover have "0 < real (length ?ns)" using ne by simp
    ultimately have v: "0 < ?v" by simp
    from v have "0 < sqrt ?v" by (rule real_sqrt_gt_zero)
    then have s: "sqrt ?v \<noteq> 0" by (rule less_imp_neq [THEN not_sym])
    have n: "0 < length rs" using False by simp
    have nn: "0 < length ?ns" using ne by simp
    have sq: "jssqrt (Fin ?v) = Fin (sqrt ?v)" using v by simp
    have dv: "jsdiv (Fin e) (Fin (sqrt ?v)) = Fin (e / sqrt ?v)" for e
      using s by (simp del: real_sqrt_eq_zero_cancel_iff)
    have fs: "Fin (sqrt ?v) \<noteq> Fin 0"
      using s by (simp del: real_sqrt_eq_zero_cancel_iff)
    show ?thesis
      unfolding sortinoRatio_def Let_def filter_jslt_Fin squares_Fin jssum_Fin
      using False ne n nn
      by (simp add: jssub_def jsdiv_count sq dv fs del: jssqrt.simps jsdiv.simps)
  qed
qed

text \<open>
  C8 as stated fails on the empty list of returns: none of them lies below the
  threshold, and the result is 0, not the unbounded value.
\<close>

theorem sortinoRatio_empty:
  "filter (\<lambda>r. jslt r (Fin 0)) [] = [] \<and> sortinoRatio [] (Fin 0) = Fin 0 \<and>
   sortinoRatio [] (Fin 0) \<noteq> PosInf"
  by (simp add: sortinoRatio_def)

text \<open>
  C9. Closing a position at the end of the run records its trade but leaves the running
  equity as it was, unlike a close inside a frame (\<open>equity_frameLoop\<close>). With one
  position still open when the data ends, the run finishes with equity 10000, the
  initial capital, and one recorded trade of pnl 15.8.
\<close>

theorem final_close_leaves_equity:
  "map_sum id (\<lambda>st. (equity st, map tr_pnl (trades st), map ep_equity (equityCurve st)))
     (simulateState defaultEngine (onceStrategy [open_signal]) 0 scenarioA_data scenarioA_config 0)
     = Inr (10000, [79 / 5], [10000, 10000])"
  by code_simp

text \<open>
  C10. When a position is closed in a frame's exit evaluation, the same turn of the loop
  appends its trade, adds the trade's pnl to equity, removes the position and hands the
  strategy a result whose pnl is the trade's and whose outcome is win exactly when that
  pnl is positive, loss exactly when it is negative and breakeven exactly when it is
  zero.
\<close>

theorem exit_notifies_outcome:
  assumes "find (\<lambda>m. snap_id m = marketId) cur = Some market"
      and "snap_outcomes market = oc # ocs"
      and "shouldExitPosition now position (out_price oc) market \<or> snap_resolved market"
  shows "\<exists>st' trade r.
           processExit eng strategy now date cur (marketId, position) st = Inr st' \<and>
           trades st' = trades st @ [trade] \<and>
           equity st' = equity st + tr_pnl trade \<and>
           positions st' = AList.delete marketId (positions st) \<and>
           strat st' = onSignalExecuted strategy (strat st) (pos_signal position) r \<and>
           res_pnl r = Some (tr_pnl trade) \<and>
           (res_outcome r = Win \<longleftrightarrow> tr_pnl trade > 0) \<and>
           (res_outcome r = Loss \<longleftrightarrow> tr_pnl trade < 0) \<and>
           (res_outcome r = Breakeven \<longleftrightarrow> tr_pnl trade = 0)"
  using assms
  by (auto simp: processExit_def Let_def exitResult_def classifyOutcome_def)

theorem exit_notifies_outcome_witness:
  "find (\<lambda>m. snap_id m = ''m1'') [quote ''m1'' 2000 (6 / 10)] = Some (quote ''m1'' 2000 (6 / 10)) \<and>
   snap_outcomes (quote ''m1'' 2000 (6 / 10)) = \<lparr> out_id = ''yes'', out_price = 6 / 10 \<rparr> # [] \<and>
   shouldExitPosition 0 scenarioA_position (6 / 10) (quote ''m1'' 2000 (6 / 10)) \<and>
   (\<exists>st' trade r.
      processExit scenarioA_engine loggingStrategy 0 2000 [quote ''m1'' 2000 (6 / 10)]
        (''m1'', scenarioA_position) loggingState = Inr st' \<and>
      trades st' = trades loggingState @ [trade] \<and>
      equity st' = equity loggingState + tr_pnl trade \<and>
      positions st' = AList.delete ''m1'' (positions loggingState) \<and>
      strat st' = onSignalExecuted loggingStrategy (strat loggingState) (pos_signal scenarioA_position) r \<and>
      res_pnl r = Some (tr_pnl trade) \<and>
      (res_outcome r = Win \<longleftrightarrow> tr_pnl trade > 0) \<and>
      (res_outcome r = Loss \<longleftrightarrow> tr_pnl trade < 0) \<and>
      (res_outcome r = Breakeven \<longleftrightarrow> tr_pnl trade = 0))"
proof -
  have h1: "find (\<lambda>m. snap_id m = ''m1'') [quote ''m1'' 2000 (6 / 10)] = Some (quote ''m1'' 2000 (6 / 10))"
    by (simp add: quote_def)
  have h2: "snap_outcomes (quote ''m1'' 2000 (6 / 10)) = \<lparr> out_id = ''yes'', out_price = 6 / 10 \<rparr> # []"
    by (simp add: quote_def)
  have h3: "shouldExitPosition 0 scenarioA_position (6 / 10) (quote ''m1'' 2000 (6 / 10))"
    by (simp add: shouldExitPosition_def scenarioA_position_def scenarioA_signal_def)
  have h3': "shouldExitPosition 0 scenarioA_position (out_price \<lparr> out_id = ''yes'', out_price = 6 / 10 \<rparr>)
               (quote ''m1'' 2000 (6 / 10)) \<or> snap_resolved (quote ''m1'' 2000 (6 / 10))"
    using h3 by simp
  have c: "\<exists>st' trade r.
      processExit scenarioA_engine loggingStrategy 0 2000 [quote ''m1'' 2000 (6 / 10)]
        (''m1'', scenarioA_position) loggingState = Inr st' \<and>
      trades st' = trades loggingState @ [trade] \<and>
      equity st' = equity loggingState + tr_pnl trade \<and>
      positions st' = AList.delete ''m1'' (positions loggingState) \<and>
      strat st' = onSignalExecuted loggingStrategy (strat loggingState) (pos_signal scenarioA_position) r \<and>
      res_pnl r = Some (tr_pnl trade) \<and>
      (res_outcome r = Win \<longleftrightarrow> tr_pnl trade > 0) \<and>
      (res_outcome r = Loss \<longleftrightarrow> tr_pnl trade < 0) \<and>
      (res_outcome r = Breakeven \<longleftrightarrow> tr_pnl trade = 0)"
    by (rule exit_notifies_outcome [OF h1 h2 h3'])
  show ?thesis by (intro conjI h1 h2 h3 c)
qed

end
